theory Spec2Isabelle
  imports Complex_Main
begin

section \<open>Data frames\<close>

text \<open>
  The workflow of \<^verbatim>\<open>bcparks_assets_data_workflow.py\<close> moves pandas data frames
  around. A frame is modelled as its column header (label and dtype, in order; pandas
  allows one label on several columns) and its rows, each row a list of cells aligned
  with the header. The row index plays no part in any function modelled here and is
  left out.
\<close>

type_synonym label = string

datatype geometry = Point real real | LineString "(real \<times> real) list"

datatype cell =
    NoneV                 \<comment> \<open>Python \<^verbatim>\<open>None\<close>\<close>
  | NaN                   \<comment> \<open>the float not-a-number, pandas' missing number\<close>
  | NaT                   \<comment> \<open>pandas' missing timestamp\<close>
  | Num real
  | Bool bool
  | Str string
  | Stamp int             \<comment> \<open>a timestamp, as nanoseconds since the epoch\<close>
  | Geom geometry

datatype dtype = Numeric | Boolean | Datetime | Object | GeometryT

datatype error =
    KeyError label
  | DuplicateLabel label  \<comment> \<open>a label used as one column but carried by several\<close>
  | TypeError
  | ValueError
  | InvalidIndexError
  | AttributeError
  | UnboundLocalError
  | SqlError              \<comment> \<open>a query that the database or pandas rejects\<close>
  | RuntimeError
  | ConnectionError
  | GenericException      \<comment> \<open>\<^verbatim>\<open>Exception("Error occurred: ...")\<close>, raised by the main block\<close>

record table =
  cols :: "(label \<times> dtype) list"
  rows :: "cell list list"

definition labels :: "table \<Rightarrow> label list" where
  "labels df = map fst (cols df)"

text \<open>The positions of the columns that carry a label, in column order.\<close>

fun positions_from :: "nat \<Rightarrow> label \<Rightarrow> label list \<Rightarrow> nat list" where
  "positions_from i l [] = []"
| "positions_from i l (x # xs) =
     (if x = l then i # positions_from (Suc i) l xs else positions_from (Suc i) l xs)"

definition positions :: "label \<Rightarrow> label list \<Rightarrow> nat list" where
  "positions l ls = positions_from 0 l ls"

text \<open>
  \<^verbatim>\<open>df[label]\<close> used as a single column (a Series): KeyError when no column carries
  the label. When several do, pandas hands back a frame instead of a Series and the
  mask operations of this module fail on the duplicated axis; the model stops there
  with \<open>DuplicateLabel\<close>.
\<close>

definition get_series :: "label list \<Rightarrow> label \<Rightarrow> error + nat" where
  "get_series ls l =
     (case positions l ls of
        [] \<Rightarrow> Inl (KeyError l)
      | [i] \<Rightarrow> Inr i
      | _ \<Rightarrow> Inl (DuplicateLabel l))"

text \<open>
  \<^verbatim>\<open>df[[l1, l2, ...]]\<close>: for every requested label, all columns that carry it;
  KeyError for a label that no column carries.
\<close>

fun get_indexer :: "label list \<Rightarrow> label list \<Rightarrow> error + nat list" where
  "get_indexer ls [] = Inr []"
| "get_indexer ls (k # ks) =
     (case positions k ls of
        [] \<Rightarrow> Inl (KeyError k)
      | ps \<Rightarrow> (case get_indexer ls ks of Inl e \<Rightarrow> Inl e | Inr qs \<Rightarrow> Inr (ps @ qs)))"

definition take_columns :: "nat list \<Rightarrow> table \<Rightarrow> table" where
  "take_columns ix df =
     \<lparr>cols = map (\<lambda>i. cols df ! i) ix, rows = map (\<lambda>r. map (\<lambda>i. r ! i) ix) (rows df)\<rparr>"

definition select_columns :: "label list \<Rightarrow> table \<Rightarrow> error + table" where
  "select_columns ks df =
     (case get_indexer (labels df) ks of
        Inl e \<Rightarrow> Inl e
      | Inr ix \<Rightarrow> Inr (take_columns ix df))"

text \<open>\<^verbatim>\<open>df.rename(columns=mapping)\<close>: labels that are keys are replaced, others stay.\<close>

definition rename_label :: "(label \<times> label) list \<Rightarrow> label \<Rightarrow> label" where
  "rename_label m l = (case map_of m l of Some v \<Rightarrow> v | None \<Rightarrow> l)"

definition rename_columns :: "(label \<times> label) list \<Rightarrow> table \<Rightarrow> table" where
  "rename_columns m df = df\<lparr>cols := map (\<lambda>(l, d). (rename_label m l, d)) (cols df)\<rparr>"

text \<open>\<^verbatim>\<open>pd.isna\<close> on a scalar.\<close>

fun isna :: "cell \<Rightarrow> bool" where
  "isna NoneV = True"
| "isna NaN = True"
| "isna NaT = True"
| "isna _ = False"

text \<open>\<^verbatim>\<open>Series.isin(values)\<close> against a list of strings.\<close>

fun isin :: "string list \<Rightarrow> cell \<Rightarrow> bool" where
  "isin vs (Str s) = (s \<in> set vs)"
| "isin vs _ = False"

text \<open>
  \<^verbatim>\<open>df.dropna(subset=[...])\<close>: KeyError for a label that is not a column; a row goes
  when any of the cells under the labels is missing.
\<close>

definition dropna :: "label list \<Rightarrow> table \<Rightarrow> error + table" where
  "dropna subs df =
     (case get_indexer (labels df) subs of
        Inl e \<Rightarrow> Inl e
      | Inr ix \<Rightarrow> Inr (df\<lparr>rows := filter (\<lambda>r. \<not> list_ex (\<lambda>i. isna (r ! i)) ix) (rows df)\<rparr>))"

text \<open>
  Comparing a column with a number. Numbers and booleans compare (a boolean as 0 or 1),
  not-a-number compares false, everything else raises TypeError for the whole column.
\<close>

fun comparable :: "cell \<Rightarrow> bool" where
  "comparable (Num r) = True"
| "comparable (Bool b) = True"
| "comparable NaN = True"
| "comparable _ = False"

fun ge_num :: "cell \<Rightarrow> real \<Rightarrow> bool" where
  "ge_num (Num r) b = (r \<ge> b)"
| "ge_num (Bool t) b = ((if t then 1 else 0) \<ge> b)"
| "ge_num _ b = False"

fun le_num :: "cell \<Rightarrow> real \<Rightarrow> bool" where
  "le_num (Num r) b = (r \<le> b)"
| "le_num (Bool t) b = ((if t then 1 else 0) \<le> b)"
| "le_num _ b = False"

text \<open>\<^verbatim>\<open>gpd.points_from_xy(xs, ys)\<close> on one pair of cells.\<close>

fun number_of :: "cell \<Rightarrow> error + real" where
  "number_of (Num r) = Inr r"
| "number_of (Bool t) = Inr (if t then 1 else 0)"
| "number_of _ = Inl TypeError"

definition point_from_xy :: "cell \<Rightarrow> cell \<Rightarrow> error + cell" where
  "point_from_xy x y =
     (case number_of x of
        Inl e \<Rightarrow> Inl e
      | Inr a \<Rightarrow> (case number_of y of Inl e \<Rightarrow> Inl e | Inr b \<Rightarrow> Inr (Geom (Point a b))))"

fun traverse :: "('a \<Rightarrow> error + 'b) \<Rightarrow> 'a list \<Rightarrow> error + 'b list" where
  "traverse f [] = Inr []"
| "traverse f (x # xs) =
     (case f x of
        Inl e \<Rightarrow> Inl e
      | Inr y \<Rightarrow> (case traverse f xs of Inl e \<Rightarrow> Inl e | Inr ys \<Rightarrow> Inr (y # ys)))"

text \<open>
  \<^verbatim>\<open>astype('str')\<close> on the object columns. Python's \<^verbatim>\<open>str\<close> of a number, a timestamp
  or a geometry is the interpreter's own formatting and is taken as the parameter
  \<open>fmt\<close>; the other cases are written out.
\<close>

fun py_str :: "(cell \<Rightarrow> string) \<Rightarrow> cell \<Rightarrow> string" where
  "py_str fmt (Str s) = s"
| "py_str fmt NoneV = ''None''"
| "py_str fmt NaN = ''nan''"
| "py_str fmt NaT = ''NaT''"
| "py_str fmt (Bool t) = (if t then ''True'' else ''False'')"
| "py_str fmt c = fmt c"

definition astype_str :: "(cell \<Rightarrow> string) \<Rightarrow> dtype \<Rightarrow> cell \<Rightarrow> cell" where
  "astype_str fmt d c = (if d = Object then Str (py_str fmt c) else c)"

definition object_cols_to_str :: "(cell \<Rightarrow> string) \<Rightarrow> table \<Rightarrow> table" where
  "object_cols_to_str fmt df =
     df\<lparr>rows := map (\<lambda>r. map (\<lambda>((l, d), c). astype_str fmt d c) (zip (cols df) r)) (rows df)\<rparr>"

section \<open>The asset transformer\<close>

definition cats :: "string list" where
  "cats =
     [''Grounds'', ''Furniture and Amenities'', ''Signs'', ''Water Service'',
      ''Transportation'', ''Stormwater'', ''Bridges'', ''Structures'', ''Trails'',
      ''Buildings'', ''Electrical Telcomm Service'', ''Wastewater Service'',
      ''Water Management'', ''Fuel Storage'']"

definition ast_cols :: "(label \<times> label) list" where
  "ast_cols =
     [(''assetid'', ''Asset ID''),
      (''gisid'', ''GIS ID''),
      (''park'', ''Park''),
      (''park_subarea'', ''Park Subarea''),
      (''asset_category'', ''Category - Classification''),
      (''asset_type'', ''Segment - Sub Classification''),
      (''description'', ''Description''),
      (''campsite_number'', ''Campsite Number''),
      (''name'', ''Name''),
      (''accessible'', ''acs Is Asset Accessible''),
      (''route_accessible'', ''acs Is the Route to the Asset Accessible''),
      (''gis_latitude'', ''GIS Latitude''),
      (''gis_longitude'', ''GIS Longitude'')]"

definition lat_min :: real where "lat_min = 47"
definition lat_max :: real where "lat_max = 60"
definition lon_min :: real where "lon_min = - 145"
definition lon_max :: real where "lon_max = - 113"

text \<open>Step 1, \<^verbatim>\<open>df[df['asset_category'].isin(cats)]\<close>.\<close>

definition filter_categories :: "table \<Rightarrow> error + table" where
  "filter_categories df =
     (case get_series (labels df) ''asset_category'' of
        Inl e \<Rightarrow> Inl e
      | Inr ic \<Rightarrow> Inr (df\<lparr>rows := filter (\<lambda>r. isin cats (r ! ic)) (rows df)\<rparr>))"

text \<open>Step 4, the bounding box of British Columbia as a row mask.\<close>

definition in_bc :: "nat \<Rightarrow> nat \<Rightarrow> cell list \<Rightarrow> bool" where
  "in_bc ilat ilon r \<longleftrightarrow>
     ge_num (r ! ilat) lat_min \<and> le_num (r ! ilat) lat_max \<and>
     ge_num (r ! ilon) lon_min \<and> le_num (r ! ilon) lon_max"

definition filter_bc :: "label \<Rightarrow> label \<Rightarrow> table \<Rightarrow> error + table" where
  "filter_bc latcol loncol df =
     (case get_series (labels df) latcol of
        Inl e \<Rightarrow> Inl e
      | Inr ilat \<Rightarrow>
          (case get_series (labels df) loncol of
             Inl e \<Rightarrow> Inl e
           | Inr ilon \<Rightarrow>
               if list_all (\<lambda>r. comparable (r ! ilat)) (rows df) \<and>
                  list_all (\<lambda>r. comparable (r ! ilon)) (rows df)
               then Inr (df\<lparr>rows := filter (in_bc ilat ilon) (rows df)\<rparr>)
               else Inl TypeError))"

text \<open>Step 5, the point geometry built from (longitude, latitude), as a last column.\<close>

definition add_point_geometry :: "label \<Rightarrow> label \<Rightarrow> table \<Rightarrow> error + table" where
  "add_point_geometry latcol loncol df =
     (case get_series (labels df) loncol of
        Inl e \<Rightarrow> Inl e
      | Inr ilon \<Rightarrow>
          (case get_series (labels df) latcol of
             Inl e \<Rightarrow> Inl e
           | Inr ilat \<Rightarrow>
               (case traverse (\<lambda>r. point_from_xy (r ! ilon) (r ! ilat)) (rows df) of
                  Inl e \<Rightarrow> Inl e
                | Inr gs \<Rightarrow>
                    Inr \<lparr>cols = cols df @ [(''geometry'', GeometryT)],
                         rows = map (\<lambda>(r, g). r @ [g]) (zip (rows df) gs)\<rparr>)))"

definition process_assets :: "(cell \<Rightarrow> string) \<Rightarrow> table \<Rightarrow> label \<Rightarrow> label \<Rightarrow> error + table" where
  "process_assets fmt df latcol loncol =
     (case filter_categories df of
        Inl e \<Rightarrow> Inl e
      | Inr df1 \<Rightarrow>
          (case select_columns (map snd ast_cols) (rename_columns ast_cols df1) of
             Inl e \<Rightarrow> Inl e
           | Inr df2 \<Rightarrow>
               (case dropna [latcol, loncol] df2 of
                  Inl e \<Rightarrow> Inl e
                | Inr df3 \<Rightarrow>
                    (case filter_bc latcol loncol df3 of
                       Inl e \<Rightarrow> Inl e
                     | Inr df4 \<Rightarrow>
                         (case add_point_geometry latcol loncol df4 of
                            Inl e \<Rightarrow> Inl e
                          | Inr gdf \<Rightarrow> Inr (object_cols_to_str fmt gdf))))))"

section \<open>Vocabulary for the statements about the asset transformer\<close>

text \<open>A cell that holds a number within the closed interval from \<open>lo\<close> to \<open>hi\<close>.\<close>

fun num_between :: "real \<Rightarrow> real \<Rightarrow> cell \<Rightarrow> bool" where
  "num_between lo hi (Num y) = (lo \<le> y \<and> y \<le> hi)"
| "num_between lo hi _ = False"

text \<open>
  The last step of the transformer turns the cells of object columns into text, so an
  output cell is its source cell, or the text of it.
\<close>

definition same_value :: "(cell \<Rightarrow> string) \<Rightarrow> cell \<Rightarrow> cell \<Rightarrow> bool" where
  "same_value fmt c c' \<longleftrightarrow> c' = c \<or> c' = Str (py_str fmt c)"

definition shows_number :: "(cell \<Rightarrow> string) \<Rightarrow> cell \<Rightarrow> real \<Rightarrow> bool" where
  "shows_number fmt c y \<longleftrightarrow> c = Num y \<or> c = Str (py_str fmt (Num y))"

text \<open>The number in a numeric cell; used for the coordinates of kept rows only.\<close>

definition num_value :: "cell \<Rightarrow> real" where
  "num_value c = (case c of Num y \<Rightarrow> y | _ \<Rightarrow> 0)"

text \<open>
  A source frame in which every mapped source column occurs exactly once and no column
  already carries one of the target names.
\<close>

definition source_columns_ok :: "table \<Rightarrow> bool" where
  "source_columns_ok df \<longleftrightarrow>
     list_all (\<lambda>(k, v). count_list (labels df) k = 1 \<and> count_list (labels df) v = 0) ast_cols"

text \<open>The cells of a float64 column: a number or not-a-number.\<close>

fun float_cell :: "cell \<Rightarrow> bool" where
  "float_cell (Num y) = True"
| "float_cell NaN = True"
| "float_cell _ = False"

subsection \<open>Sample frames\<close>

definition sample_cols :: "(label \<times> dtype) list" where
  "sample_cols =
     [(''assetid'', Object), (''gisid'', Object), (''park'', Object),
      (''park_subarea'', Object), (''asset_category'', Object), (''asset_type'', Object),
      (''description'', Object), (''campsite_number'', Object), (''name'', Object),
      (''accessible'', Object), (''route_accessible'', Object),
      (''gis_latitude'', Numeric), (''gis_longitude'', Numeric), (''ogc_fid'', Numeric)]"

definition sample_row :: "string \<Rightarrow> cell \<Rightarrow> cell \<Rightarrow> cell list" where
  "sample_row c la lo =
     [Str ''A1'', Str ''G1'', Str ''Garibaldi'', NoneV, Str c, Str ''Sign'', NoneV, NoneV,
      Str ''Trailhead'', NoneV, NoneV, la, lo, Num 7]"

text \<open>
  Ten rows: two of category Parking, eight of category Signs, one of these without a
  longitude and one with longitude -200.
\<close>

definition sample_assets :: table where
  "sample_assets =
     \<lparr>cols = sample_cols,
      rows =
        [sample_row ''Parking'' (Num 49.5) (Num (- 123)),
         sample_row ''Signs'' (Num 49.5) (Num (- 123)),
         sample_row ''Signs'' (Num 50) NaN,
         sample_row ''Signs'' (Num 47) (Num (- 145)),
         sample_row ''Signs'' (Num 51) (Num (- 200)),
         sample_row ''Parking'' (Num 52) (Num (- 120)),
         sample_row ''Signs'' (Num 60) (Num (- 113)),
         sample_row ''Signs'' (Num 54.25) (Num (- 130)),
         sample_row ''Signs'' (Num 48) (Num (- 125)),
         sample_row ''Signs'' (Num 58) (Num (- 133.5))]\<rparr>"

definition sample_out_cols :: "(label \<times> dtype) list" where
  "sample_out_cols =
     [(''Asset ID'', Object), (''GIS ID'', Object), (''Park'', Object),
      (''Park Subarea'', Object), (''Category - Classification'', Object),
      (''Segment - Sub Classification'', Object), (''Description'', Object),
      (''Campsite Number'', Object), (''Name'', Object),
      (''acs Is Asset Accessible'', Object),
      (''acs Is the Route to the Asset Accessible'', Object),
      (''GIS Latitude'', Numeric), (''GIS Longitude'', Numeric),
      (''geometry'', GeometryT)]"

definition sample_out_row :: "real \<Rightarrow> real \<Rightarrow> cell list" where
  "sample_out_row la lo =
     [Str ''A1'', Str ''G1'', Str ''Garibaldi'', Str ''None'', Str ''Signs'', Str ''Sign'',
      Str ''None'', Str ''None'', Str ''Trailhead'', Str ''None'', Str ''None'',
      Num la, Num lo, Geom (Point lo la)]"

definition sample_out :: table where
  "sample_out =
     \<lparr>cols = sample_out_cols,
      rows =
        [sample_out_row 49.5 (- 123), sample_out_row 47 (- 145), sample_out_row 60 (- 113),
         sample_out_row 54.25 (- 130), sample_out_row 48 (- 125),
         sample_out_row 58 (- 133.5)]\<rparr>"

text \<open>A frame with every mapped source column and one more column, labelled Park already.\<close>

definition park_twice :: table where
  "park_twice =
     \<lparr>cols = butlast sample_cols @ [(''Park'', Object)],
      rows = [butlast (sample_row ''Signs'' (Num 49.5) (Num (- 123))) @ [Str ''Strathcona'']]\<rparr>"

definition park_twice_out :: table where
  "park_twice_out =
     \<lparr>cols =
        [(''Asset ID'', Object), (''GIS ID'', Object), (''Park'', Object), (''Park'', Object),
         (''Park Subarea'', Object), (''Category - Classification'', Object),
         (''Segment - Sub Classification'', Object), (''Description'', Object),
         (''Campsite Number'', Object), (''Name'', Object),
         (''acs Is Asset Accessible'', Object),
         (''acs Is the Route to the Asset Accessible'', Object),
         (''GIS Latitude'', Numeric), (''GIS Longitude'', Numeric),
         (''geometry'', GeometryT)],
      rows =
        [[Str ''A1'', Str ''G1'', Str ''Garibaldi'', Str ''Strathcona'', Str ''None'',
          Str ''Signs'', Str ''Sign'', Str ''None'', Str ''None'', Str ''Trailhead'',
          Str ''None'', Str ''None'', Num 49.5, Num (- 123), Geom (Point (- 123) 49.5)]]\<rparr>"

section \<open>The database connector\<close>

text \<open>
  Messages go to the \<^verbatim>\<open>logging\<close> module; the model collects them, with their level.
  Exception texts that the source interpolates into a message are left out.
\<close>

datatype level = INFO | WARNING | ERROR

type_synonym log = "(level \<times> string) list"

text \<open>
  The exception classes a psycopg2 call can raise. \<^verbatim>\<open>OperationalError\<close> and
  \<^verbatim>\<open>ProgrammingError\<close> are subclasses of \<^verbatim>\<open>DatabaseError\<close>;
  \<^verbatim>\<open>InterfaceError\<close> derives from \<^verbatim>\<open>psycopg2.Error\<close> directly;
  \<open>OtherException\<close> is any exception outside psycopg2's hierarchy.
\<close>

datatype pg_exception =
    OperationalError
  | ProgrammingError
  | DatabaseError
  | InterfaceError
  | OtherException

fun is_OperationalError :: "pg_exception \<Rightarrow> bool" where
  "is_OperationalError OperationalError = True"
| "is_OperationalError _ = False"

fun is_DatabaseError :: "pg_exception \<Rightarrow> bool" where
  "is_DatabaseError OperationalError = True"
| "is_DatabaseError ProgrammingError = True"
| "is_DatabaseError DatabaseError = True"
| "is_DatabaseError _ = False"

text \<open>
  The tables of the schema \<^verbatim>\<open>assets\<close>, by name, in the order in which
  \<^verbatim>\<open>information_schema.tables\<close> lists them.
\<close>

type_synonym database = "(string \<times> table) list"

text \<open>
  A driver connection: the database behind it, and what its \<^verbatim>\<open>close()\<close> does
  (\<open>None\<close>: it returns; \<open>Some e\<close>: it raises \<open>e\<close>).
\<close>

record connection =
  db :: database
  close_raises :: "pg_exception option"

record credentials =
  dbname :: "string option"
  user :: "string option"
  password :: "string option"
  host :: "string option"
  port :: "string option"

record pg_manager =
  creds :: credentials
  pg_connection :: "connection option"
  pg_cursor :: "unit option"

text \<open>The outcome of a method call: the exception that left it, if any; its return value; its log; the object afterwards.\<close>

record ('e, 'r, 's) outcome =
  raised :: "'e option"
  returned :: "'r option"
  logged :: log
  after :: 's

definition PostgresDBManager :: "credentials \<Rightarrow> pg_manager" where
  "PostgresDBManager c = \<lparr>creds = c, pg_connection = None, pg_cursor = None\<rparr>"

text \<open>
  \<^verbatim>\<open>PostgresDBManager.connect\<close>. The parameter \<open>driver\<close> is \<^verbatim>\<open>psycopg2.connect\<close>:
  a connection, or the exception it raises. Only \<^verbatim>\<open>OperationalError\<close> is caught.
\<close>

definition pg_connect ::
  "(credentials \<Rightarrow> pg_exception + connection) \<Rightarrow> pg_manager \<Rightarrow> (pg_exception, connection, pg_manager) outcome" where
  "pg_connect driver m =
     (case driver (creds m) of
        Inr c \<Rightarrow>
          \<lparr>raised = None, returned = Some c,
           logged = [(INFO, ''..Postgres connection established successfully.'')],
           after = m\<lparr>pg_connection := Some c\<rparr>\<rparr>
      | Inl e \<Rightarrow>
          if is_OperationalError e then
            \<lparr>raised = None, returned = None,
             logged = [(ERROR, ''..error connecting to database'')],
             after = m\<lparr>pg_connection := None\<rparr>\<rparr>
          else
            \<lparr>raised = Some e, returned = None, logged = [], after = m\<rparr>)"

text \<open>
  \<^verbatim>\<open>PostgresDBManager.disconnect\<close>: \<^verbatim>\<open>DatabaseError\<close> from \<^verbatim>\<open>close()\<close> is caught
  and logged, any other exception leaves the method; the \<^verbatim>\<open>finally\<close> clause clears
  both handles either way.
\<close>

definition pg_disconnect :: "pg_manager \<Rightarrow> (pg_exception, unit, pg_manager) outcome" where
  "pg_disconnect m =
     (case pg_connection m of
        Some c \<Rightarrow>
          (case close_raises c of
             None \<Rightarrow>
               \<lparr>raised = None, returned = None,
                logged = [(INFO, ''Postgres connection closed.'')],
                after = m\<lparr>pg_connection := None, pg_cursor := None\<rparr>\<rparr>
           | Some e \<Rightarrow>
               if is_DatabaseError e then
                 \<lparr>raised = None, returned = None,
                  logged = [(ERROR, ''Error closing connection'')],
                  after = m\<lparr>pg_connection := None, pg_cursor := None\<rparr>\<rparr>
               else
                 \<lparr>raised = Some e, returned = None, logged = [],
                  after = m\<lparr>pg_connection := None, pg_cursor := None\<rparr>\<rparr>)
      | None \<Rightarrow>
          \<lparr>raised = None, returned = None,
           logged = [(WARNING, ''..no active database connection to close.'')],
           after = m\<rparr>)"

text \<open>Calling \<^verbatim>\<open>disconnect\<close> \<open>n\<close> times in a row; the exceptions of all calls are collected.\<close>

fun pg_disconnect_times :: "nat \<Rightarrow> pg_manager \<Rightarrow> pg_exception list \<times> pg_manager" where
  "pg_disconnect_times 0 m = ([], m)"
| "pg_disconnect_times (Suc n) m =
     (let r = pg_disconnect m; (es, m') = pg_disconnect_times n (after r)
      in (case raised r of None \<Rightarrow> es | Some e \<Rightarrow> e # es, m'))"

section \<open>The asset reader\<close>

text \<open>
  The two queries of \<^verbatim>\<open>read_assets\<close> run in the database. \<^verbatim>\<open>ST_Centroid\<close> and
  \<^verbatim>\<open>ST_Transform(_, 4326)\<close> are PostGIS's and are taken as the parameters \<open>centroid\<close>
  and \<open>to_wgs84\<close>; \<^verbatim>\<open>ST_X\<close> and \<^verbatim>\<open>ST_Y\<close> accept points only.
\<close>

fun st_x :: "geometry \<Rightarrow> error + real" where
  "st_x (Point x y) = Inr x"
| "st_x _ = Inl SqlError"

fun st_y :: "geometry \<Rightarrow> error + real" where
  "st_y (Point x y) = Inr y"
| "st_y _ = Inl SqlError"

definition centroid_tables :: "string list" where
  "centroid_tables = [''trails'', ''roads'']"

text \<open>
  The two derived cells of a row, latitude first; a NULL geometry gives two NULLs, read
  here as not-a-number in a float column. (For a table whose geometries are all NULL
  pandas builds object columns holding \<^verbatim>\<open>None\<close> instead; the model keeps the float
  columns.)
\<close>

definition coordinate_cells ::
  "(geometry \<Rightarrow> geometry) \<Rightarrow> (geometry \<Rightarrow> geometry) \<Rightarrow> bool \<Rightarrow> cell \<Rightarrow> error + cell list" where
  "coordinate_cells centroid to_wgs84 use_centroid c =
     (case c of
        Geom g \<Rightarrow>
          (let p = to_wgs84 (if use_centroid then centroid g else g)
           in case st_y p of
                Inl e \<Rightarrow> Inl e
              | Inr la \<Rightarrow> (case st_x p of Inl e \<Rightarrow> Inl e | Inr lo \<Rightarrow> Inr [Num la, Num lo]))
      | NoneV \<Rightarrow> Inr [NaN, NaN]
      | _ \<Rightarrow> Inl SqlError)"

text \<open>
  \<^verbatim>\<open>pd.read_sql\<close> of \<^verbatim>\<open>SELECT *, ST_Y(...) AS gis_latitude, ST_X(...) AS gis_longitude
  FROM assets.<table_name>\<close>, with the centroid for the tables trails and roads.
\<close>

definition select_with_coordinates ::
  "(geometry \<Rightarrow> geometry) \<Rightarrow> (geometry \<Rightarrow> geometry) \<Rightarrow> database \<Rightarrow> string \<Rightarrow> error + table" where
  "select_with_coordinates centroid to_wgs84 d table_name =
     (case map_of d table_name of
        None \<Rightarrow> Inl SqlError
      | Some t \<Rightarrow>
          (case get_series (labels t) ''wkb_geometry'' of
             Inl e \<Rightarrow> Inl SqlError
           | Inr ig \<Rightarrow>
               (case traverse
                       (\<lambda>r. case coordinate_cells centroid to_wgs84
                                    (table_name \<in> set centroid_tables) (r ! ig) of
                               Inl e \<Rightarrow> Inl e
                             | Inr cs \<Rightarrow> Inr (r @ cs))
                       (rows t) of
                  Inl e \<Rightarrow> Inl e
                | Inr rs \<Rightarrow>
                    Inr \<lparr>cols = cols t @ [(''gis_latitude'', Numeric), (''gis_longitude'', Numeric)],
                         rows = rs\<rparr>)))"

text \<open>\<^verbatim>\<open>df.drop(columns=[...])\<close>: KeyError for a label that is not a column.\<close>

definition drop_columns :: "label list \<Rightarrow> table \<Rightarrow> error + table" where
  "drop_columns ks df =
     (case find (\<lambda>k. k \<notin> set (labels df)) ks of
        Some k \<Rightarrow> Inl (KeyError k)
      | None \<Rightarrow>
          Inr (take_columns (filter (\<lambda>i. labels df ! i \<notin> set ks) [0 ..< length (cols df)]) df))"

text \<open>
  \<^verbatim>\<open>pd.concat(frames, ignore_index=True)\<close>: the columns are the union of the frames'
  columns in order of first appearance, and a frame without a column gets missing
  values there. Frames that repeat a label can only be stacked when all frames carry
  the same labels.
\<close>

definition union_labels :: "table list \<Rightarrow> label list" where
  "union_labels fs = rev (remdups (rev (concat (map labels fs))))"

definition concat_dtype :: "table list \<Rightarrow> label \<Rightarrow> dtype" where
  "concat_dtype fs l =
     (case remdups (concat (map (\<lambda>f. map snd (filter (\<lambda>c. fst c = l) (cols f))) fs)) of
        [d] \<Rightarrow> if d = Boolean \<and> list_ex (\<lambda>f. l \<notin> set (labels f)) fs then Object else d
      | _ \<Rightarrow> Object)"

definition fill_value :: "dtype \<Rightarrow> cell" where
  "fill_value d = (if d = Datetime then NaT else NaN)"

definition reindex_row :: "table list \<Rightarrow> label list \<Rightarrow> table \<Rightarrow> cell list \<Rightarrow> cell list" where
  "reindex_row fs ls f r =
     map (\<lambda>l. case positions l (labels f) of
                 i # _ \<Rightarrow> r ! i
               | [] \<Rightarrow> fill_value (concat_dtype fs l)) ls"

definition concat_frames :: "table list \<Rightarrow> error + table" where
  "concat_frames fs =
     (if fs = [] then Inl ValueError
      else if list_all (\<lambda>f. distinct (labels f)) fs then
        Inr \<lparr>cols = map (\<lambda>l. (l, concat_dtype fs l)) (union_labels fs),
             rows = concat (map (\<lambda>f. map (reindex_row fs (union_labels fs) f) (rows f)) fs)\<rparr>
      else if list_all (\<lambda>f. labels f = labels (hd fs)) fs then
        Inr \<lparr>cols = map (\<lambda>(l, d). (l, concat_dtype fs l)) (cols (hd fs)),
             rows = concat (map rows fs)\<rparr>
      else Inl InvalidIndexError)"

text \<open>\<^verbatim>\<open>assets_dict[table_name] = df\<close> on an insertion-ordered dictionary.\<close>

fun dict_set :: "'k \<Rightarrow> 'v \<Rightarrow> ('k \<times> 'v) list \<Rightarrow> ('k \<times> 'v) list" where
  "dict_set k v [] = [(k, v)]"
| "dict_set k v ((k', v') # d) = (if k' = k then (k, v) # d else (k', v') # dict_set k v d)"

text \<open>
  The first two statements of the loop body: the query of one table, and the drop of
  its raw geometry column.
\<close>

definition read_table ::
  "(geometry \<Rightarrow> geometry) \<Rightarrow> (geometry \<Rightarrow> geometry) \<Rightarrow> database \<Rightarrow> string \<Rightarrow> error + table" where
  "read_table centroid to_wgs84 d table_name =
     (case select_with_coordinates centroid to_wgs84 d table_name of
        Inl e \<Rightarrow> Inl e
      | Inr q \<Rightarrow> drop_columns [''wkb_geometry''] q)"

text \<open>
  The loop over the table names. Its state is \<^verbatim>\<open>assets_dict\<close> and the variable
  \<^verbatim>\<open>df\<close>, which is unbound before the first iteration and holds the concatenation of
  the dictionary's frames after each one.
\<close>

fun read_tables ::
  "(geometry \<Rightarrow> geometry) \<Rightarrow> (geometry \<Rightarrow> geometry) \<Rightarrow> database \<Rightarrow> string list \<Rightarrow>
   (string \<times> table) list \<times> table option \<Rightarrow> error + (string \<times> table) list \<times> table option" where
  "read_tables centroid to_wgs84 d [] st = Inr st"
| "read_tables centroid to_wgs84 d (table_name # names) (assets_dict, df) =
     (case read_table centroid to_wgs84 d table_name of
        Inl e \<Rightarrow> Inl e
      | Inr df1 \<Rightarrow>
          (let assets_dict' = dict_set table_name df1 assets_dict
           in case concat_frames (map snd assets_dict') of
                Inl e \<Rightarrow> Inl e
              | Inr df2 \<Rightarrow> read_tables centroid to_wgs84 d names (assets_dict', Some df2)))"

text \<open>
  \<^verbatim>\<open>read_assets(conn)\<close>. Without a connection \<^verbatim>\<open>pd.read_sql\<close> fails on the missing
  cursor. \<^verbatim>\<open>return df\<close> after a loop that never ran finds \<^verbatim>\<open>df\<close> unbound.
\<close>

definition read_assets ::
  "(geometry \<Rightarrow> geometry) \<Rightarrow> (geometry \<Rightarrow> geometry) \<Rightarrow> connection option \<Rightarrow> error + table" where
  "read_assets centroid to_wgs84 conn =
     (case conn of
        None \<Rightarrow> Inl AttributeError
      | Some c \<Rightarrow>
          (let tab_names = filter (\<lambda>x. x \<noteq> ''qgis_projects'') (map fst (db c))
           in case read_tables centroid to_wgs84 (db c) tab_names ([], None) of
                Inl e \<Rightarrow> Inl e
              | Inr (assets_dict, None) \<Rightarrow> Inl UnboundLocalError
              | Inr (assets_dict, Some df) \<Rightarrow> Inr df))"

subsection \<open>The reader, as the specification words it\<close>



section \<open>The publisher\<close>

subsection \<open>GeoJSON\<close>

text \<open>
  \<^verbatim>\<open>__geo_interface__\<close> of a geometry: its GeoJSON type and its coordinates, one
  position for a point, a sequence of positions for a line.
\<close>

datatype coordinates = Position "real \<times> real" | Positions "(real \<times> real) list"

record geo_dict =
  geo_type :: string
  geo_coordinates :: coordinates

fun geo_interface :: "geometry \<Rightarrow> geo_dict" where
  "geo_interface (Point x y) = \<lparr>geo_type = ''Point'', geo_coordinates = Position (x, y)\<rparr>"
| "geo_interface (LineString ps) = \<lparr>geo_type = ''LineString'', geo_coordinates = Positions ps\<rparr>"

record feature =
  feature_type :: string
  properties :: "(label \<times> cell) list"
  geometry_member :: geo_dict

record feature_collection =
  collection_type :: string
  features :: "feature list"

text \<open>
  The value stored for a column: \<^verbatim>\<open>isoformat()\<close> of a timestamp (the parameter
  \<open>isoformat\<close>), the empty string for a missing timestamp, the value itself otherwise.
\<close>

fun property_value :: "(int \<Rightarrow> string) \<Rightarrow> cell \<Rightarrow> cell" where
  "property_value isoformat (Stamp t) = Str (isoformat t)"
| "property_value isoformat NaT = Str ''''"
| "property_value isoformat c = c"

text \<open>
  The inner loop over \<^verbatim>\<open>row.items()\<close>: an assignment into the dictionary per column
  other than geometry, so that of two columns with one label the later one stays.
\<close>

fun set_properties ::
  "(int \<Rightarrow> string) \<Rightarrow> (label \<times> cell) list \<Rightarrow> (label \<times> cell) list \<Rightarrow> (label \<times> cell) list" where
  "set_properties isoformat [] props = props"
| "set_properties isoformat ((column, v) # items) props =
     (if column \<noteq> ''geometry''
      then set_properties isoformat items (dict_set column (property_value isoformat v) props)
      else set_properties isoformat items props)"

definition row_to_feature :: "(int \<Rightarrow> string) \<Rightarrow> label list \<Rightarrow> cell list \<Rightarrow> error + feature" where
  "row_to_feature isoformat ls row =
     (case get_series ls ''geometry'' of
        Inl e \<Rightarrow> Inl e
      | Inr ig \<Rightarrow>
          (case row ! ig of
             Geom g \<Rightarrow>
               Inr \<lparr>feature_type = ''Feature'',
                    properties = set_properties isoformat (zip ls row) [],
                    geometry_member = geo_interface g\<rparr>
           | _ \<Rightarrow> Inl AttributeError))"

definition gdf_to_geojson :: "(int \<Rightarrow> string) \<Rightarrow> table \<Rightarrow> error + feature_collection" where
  "gdf_to_geojson isoformat gdf =
     (case traverse (row_to_feature isoformat (labels gdf)) (rows gdf) of
        Inl e \<Rightarrow> Inl e
      | Inr fs \<Rightarrow> Inr \<lparr>collection_type = ''FeatureCollection'', features = fs\<rparr>)"

text \<open>
  \<^verbatim>\<open>gdf.fillna('')\<close> and \<^verbatim>\<open>gdf.replace("None", "")\<close>. (geopandas refuses to fill
  a missing geometry with a string and raises \<^verbatim>\<open>TypeError\<close> there; the model fills it
  like any other cell, and the conversion then fails at the row's
  \<^verbatim>\<open>__geo_interface__\<close>.)
\<close>

definition fillna_empty :: "table \<Rightarrow> table" where
  "fillna_empty gdf = gdf\<lparr>rows := map (map (\<lambda>c. if isna c then Str '''' else c)) (rows gdf)\<rparr>"

definition replace_None :: "table \<Rightarrow> table" where
  "replace_None gdf =
     gdf\<lparr>rows := map (map (\<lambda>c. if c = Str ''None'' then Str '''' else c)) (rows gdf)\<rparr>"

subsection \<open>The content store\<close>

text \<open>
  The destination is a store of items. What the platform does with a request is not
  code of this workflow; it is modelled by its contract: \<^verbatim>\<open>content.search\<close> returns
  the items of the asked type and owner whose title the query matches (the relation
  \<open>qmatch\<close> of the platform's text search, a parameter), \<^verbatim>\<open>delete\<close> removes the item,
  \<^verbatim>\<open>content.add\<close> creates an item owned by the user, \<^verbatim>\<open>publish(overwrite=True)\<close>
  creates the feature service of that title or overwrites the user's existing one. The
  platform may answer any request with an error (\<open>rejects\<close>, a parameter).
\<close>

record item =
  item_id :: nat
  item_title :: string
  item_type :: string
  item_owner :: string
  item_file :: string
  item_folder :: string

record store =
  content :: "item list"
  next_id :: nat

datatype request = Search | Delete nat | Add | Publish

definition content_search ::
  "(string \<Rightarrow> string \<Rightarrow> bool) \<Rightarrow> store \<Rightarrow> string \<Rightarrow> string \<Rightarrow> string \<Rightarrow> item list" where
  "content_search qmatch s title username ty =
     filter (\<lambda>i. item_type i = ty \<and> item_owner i = username \<and> qmatch title (item_title i))
       (content s)"

definition item_delete :: "item \<Rightarrow> store \<Rightarrow> store" where
  "item_delete i s = s\<lparr>content := filter (\<lambda>j. item_id j \<noteq> item_id i) (content s)\<rparr>"

definition content_add :: "string \<Rightarrow> string \<Rightarrow> string \<Rightarrow> string \<Rightarrow> string \<Rightarrow> store \<Rightarrow> item \<times> store" where
  "content_add username title ty file folder s =
     (let i = \<lparr>item_id = next_id s, item_title = title, item_type = ty, item_owner = username,
               item_file = file, item_folder = folder\<rparr>
      in (i, s\<lparr>content := content s @ [i], next_id := Suc (next_id s)\<rparr>))"

definition item_publish :: "item \<Rightarrow> store \<Rightarrow> store" where
  "item_publish i s =
     (if list_ex (\<lambda>j. item_type j = ''Feature Service'' \<and> item_title j = item_title i \<and>
                       item_owner j = item_owner i) (content s)
      then s
      else s\<lparr>content := content s @
                 [\<lparr>item_id = next_id s, item_title = item_title i,
                   item_type = ''Feature Service'', item_owner = item_owner i,
                   item_file = '''', item_folder = item_folder i\<rparr>],
             next_id := Suc (next_id s)\<rparr>)"

subsection \<open>The manager\<close>

text \<open>A session: the user it is logged in as, if the login identified one.\<close>

record session =
  me :: "string option"

record ago_manager =
  ago_host :: "string option"
  ago_username :: "string option"
  ago_password :: "string option"
  gis :: "session option"

definition AGOManager :: "string option \<Rightarrow> string option \<Rightarrow> string option \<Rightarrow> ago_manager" where
  "AGOManager h u p = \<lparr>ago_host = h, ago_username = u, ago_password = p, gis = None\<rparr>"

text \<open>
  \<^verbatim>\<open>AGOManager.connect\<close>; \<open>portal\<close> is the \<^verbatim>\<open>GIS(...)\<close> constructor, which returns a
  session or raises.
\<close>

definition ago_connect ::
  "(string option \<Rightarrow> string option \<Rightarrow> string option \<Rightarrow> error + session) \<Rightarrow> ago_manager \<Rightarrow>
   (error, unit, ago_manager) outcome" where
  "ago_connect portal m =
     (case portal (ago_host m) (ago_username m) (ago_password m) of
        Inl e \<Rightarrow> \<lparr>raised = Some e, returned = None, logged = [], after = m\<rparr>
      | Inr g \<Rightarrow>
          (case me g of
             Some u \<Rightarrow>
               \<lparr>raised = None, returned = None,
                logged = [(INFO, ''..successfully connected to AGOL as '' @ u)],
                after = m\<lparr>gis := Some g\<rparr>\<rparr>
           | None \<Rightarrow>
               \<lparr>raised = Some ConnectionError, returned = None,
                logged = [(ERROR, ''..connection to AGOL failed.'')],
                after = m\<lparr>gis := Some g\<rparr>\<rparr>))"

definition ago_disconnect :: "ago_manager \<Rightarrow> (error, unit, ago_manager) outcome" where
  "ago_disconnect m =
     (case gis m of
        Some g \<Rightarrow>
          \<lparr>raised = None, returned = None, logged = [(INFO, ''Disconnected from AGOL'')],
           after = m\<lparr>gis := None\<rparr>\<rparr>
      | None \<Rightarrow>
          \<lparr>raised = None, returned = None,
           logged = [(WARNING, ''No active AGOL connection to disconnect.'')], after = m\<rparr>)"

fun ago_disconnect_times :: "nat \<Rightarrow> ago_manager \<Rightarrow> error list \<times> ago_manager" where
  "ago_disconnect_times 0 m = ([], m)"
| "ago_disconnect_times (Suc n) m =
     (let r = ago_disconnect m; (es, m') = ago_disconnect_times n (after r)
      in (case raised r of None \<Rightarrow> es | Some e \<Rightarrow> e # es, m'))"

text \<open>
  The loop that deletes the found items. It stops at the first request that the
  platform rejects; what was deleted before stays deleted.
\<close>

fun delete_existing ::
  "(request \<Rightarrow> bool) \<Rightarrow> item list \<Rightarrow> log \<times> store \<Rightarrow> bool \<times> log \<times> store" where
  "delete_existing rejects [] (lg, s) = (True, lg, s)"
| "delete_existing rejects (i # items) (lg, s) =
     (if item_type i = ''GeoJson'' then
        if rejects (Delete (item_id i)) then (False, lg, s)
        else delete_existing rejects items
               (lg @ [(INFO, ''..existing GeoJSON item '' @ item_title i @ '' deleted.'')],
                item_delete i s)
      else delete_existing rejects items (lg, s))"

text \<open>
  The body of the \<^verbatim>\<open>try\<close> block of \<^verbatim>\<open>publish_feature_layer\<close>: whether it came to its
  end, its log, the store it leaves.
\<close>

definition publish_steps ::
  "(string \<Rightarrow> string \<Rightarrow> bool) \<Rightarrow> (request \<Rightarrow> bool) \<Rightarrow> session \<Rightarrow> string \<Rightarrow> string \<Rightarrow> string \<Rightarrow>
   store \<Rightarrow> bool \<times> log \<times> store" where
  "publish_steps qmatch rejects g title geojson_name folder s =
     (case me g of
        None \<Rightarrow> (False, [], s)
      | Some username \<Rightarrow>
          if rejects Search then (False, [], s)
          else
            (let existing_items =
                   filter (\<lambda>i. item_title i = title)
                     (content_search qmatch s title username ''GeoJson'')
             in case delete_existing rejects existing_items ([], s) of
                  (False, lg, s1) \<Rightarrow> (False, lg, s1)
                | (True, lg, s1) \<Rightarrow>
                    if rejects Add then (False, lg, s1)
                    else
                      (let (new_geojson_item, s2) =
                             content_add username title ''GeoJson'' (geojson_name @ ''.geojson'')
                               folder s1
                       in if rejects Publish then (False, lg, s2)
                          else (True, lg @ [(INFO, ''..feature layer '' @ title @ '' published successfully.'')],
                                item_publish new_geojson_item s2))))"

definition publish_feature_layer ::
  "(int \<Rightarrow> string) \<Rightarrow> (string \<Rightarrow> string \<Rightarrow> bool) \<Rightarrow> (request \<Rightarrow> bool) \<Rightarrow> ago_manager \<Rightarrow>
   table \<Rightarrow> string \<Rightarrow> string \<Rightarrow> string \<Rightarrow> string \<Rightarrow> store \<Rightarrow> (error, unit, store) outcome" where
  "publish_feature_layer isoformat qmatch rejects m gdf title geojson_name item_desc folder s =
     (case gis m of
        None \<Rightarrow> \<lparr>raised = Some RuntimeError, returned = None, logged = [], after = s\<rparr>
      | Some g \<Rightarrow>
          (case gdf_to_geojson isoformat (replace_None (fillna_empty gdf)) of
             Inl e \<Rightarrow>
               \<lparr>raised = Some e, returned = None,
                logged = [(INFO, ''..converting data to geojson.'')], after = s\<rparr>
           | Inr geojson_dict \<Rightarrow>
               (case publish_steps qmatch rejects g title geojson_name folder s of
                  (True, lg, s') \<Rightarrow>
                    \<lparr>raised = None, returned = None,
                     logged = (INFO, ''..converting data to geojson.'') # lg, after = s'\<rparr>
                | (False, lg, s') \<Rightarrow>
                    \<lparr>raised = Some RuntimeError, returned = None,
                     logged = (INFO, ''..converting data to geojson.'') # lg @
                       [(ERROR, ''..error publishing/updating feature layer'')],
                     after = s'\<rparr>)))"

section \<open>Vocabulary for the statements about the publisher\<close>

text \<open>
  Reading a Feature back: the value of a property by name, and the geometry that a
  GeoJSON geometry object stands for.
\<close>

definition parsed_property :: "feature \<Rightarrow> label \<Rightarrow> cell option" where
  "parsed_property f l = map_of (properties f) l"

definition shape :: "geo_dict \<Rightarrow> geometry option" where
  "shape g =
     (case geo_coordinates g of
        Position (x, y) \<Rightarrow> if geo_type g = ''Point'' then Some (Point x y) else None
      | Positions ps \<Rightarrow> if geo_type g = ''LineString'' then Some (LineString ps) else None)"

fun geometry_of :: "cell \<Rightarrow> geometry option" where
  "geometry_of (Geom g) = Some g"
| "geometry_of _ = None"

text \<open>
  The normalization, as the specification words it: a missing value and the literal
  string None become the empty string, a timestamp becomes its ISO-8601 text, any other
  value stays.
\<close>

definition normalized_value :: "(int \<Rightarrow> string) \<Rightarrow> cell \<Rightarrow> cell" where
  "normalized_value isoformat c =
     (if isna c \<or> c = Str ''None'' then Str ''''
      else case c of Stamp t \<Rightarrow> Str (isoformat t) | _ \<Rightarrow> c)"

text \<open>A cell after \<^verbatim>\<open>fillna('')\<close> and \<^verbatim>\<open>replace("None", "")\<close>.\<close>

definition prepared :: "cell \<Rightarrow> cell" where
  "prepared c = (if (if isna c then Str '''' else c) = Str ''None'' then Str ''''
                 else (if isna c then Str '''' else c))"

text \<open>The Feature that the publisher builds from the one row of \<open>park_twice_out\<close>.\<close>

definition park_twice_feature :: feature where
  "park_twice_feature =
     \<lparr>feature_type = ''Feature'',
      properties =
        [(''Asset ID'', Str ''A1''), (''GIS ID'', Str ''G1''), (''Park'', Str ''Strathcona''),
         (''Park Subarea'', Str ''''), (''Category - Classification'', Str ''Signs''),
         (''Segment - Sub Classification'', Str ''Sign''), (''Description'', Str ''''),
         (''Campsite Number'', Str ''''), (''Name'', Str ''Trailhead''),
         (''acs Is Asset Accessible'', Str ''''),
         (''acs Is the Route to the Asset Accessible'', Str ''''),
         (''GIS Latitude'', Num 49.5), (''GIS Longitude'', Num (- 123))],
      geometry_member = \<lparr>geo_type = ''Point'', geo_coordinates = Position (- 123, 49.5)\<rparr>\<rparr>"

section \<open>The publish phase of the main block\<close>

definition asset_title :: string where
  "asset_title = ''PARC_L1G_Park_Asset_Data_Feature_Layer_v2''"

definition trail_title :: string where
  "trail_title = ''PARC_L1G_Park_Trail_Data_Feature_Layer_v2''"

definition parc_folder :: string where
  "parc_folder = ''DSS Protected Areas Resource Catalogue (PARC) - Resource Analysis''"

definition assets_empty_message :: "level \<times> string" where
  "assets_empty_message = (ERROR, ''..Assets dataset is empty. AGO update aborted!'')"

definition trails_empty_message :: "level \<times> string" where
  "trails_empty_message = (ERROR, ''..Trails dataset is empty. AGO update aborted!'')"

text \<open>The \<^verbatim>\<open>finally\<close> clause: disconnect, then let the pending exception go on.\<close>

definition finally_disconnect ::
  "error option \<Rightarrow> log \<Rightarrow> ago_manager \<Rightarrow> store \<Rightarrow> (error, unit, ago_manager \<times> store) outcome" where
  "finally_disconnect exc lg ago s =
     (let d = ago_disconnect ago
      in \<lparr>raised = exc, returned = None, logged = lg @ logged d, after = (after d, s)\<rparr>)"

text \<open>The step for one dataset: publish it when it has rows, log an error otherwise.\<close>

definition publish_if_rows ::
  "(int \<Rightarrow> string) \<Rightarrow> (string \<Rightarrow> string \<Rightarrow> bool) \<Rightarrow> (request \<Rightarrow> bool) \<Rightarrow> ago_manager \<Rightarrow>
   table \<Rightarrow> string \<Rightarrow> string \<Rightarrow> string \<Rightarrow> level \<times> string \<Rightarrow> store \<Rightarrow> (error, unit, store) outcome" where
  "publish_if_rows isoformat qmatch rejects ago gdf title geojson_name item_desc empty_message s =
     (if length (rows gdf) > 0
      then publish_feature_layer isoformat qmatch rejects ago gdf title geojson_name item_desc
             parc_folder s
      else \<lparr>raised = None, returned = None, logged = [empty_message], after = s\<rparr>)"

text \<open>
  The second \<^verbatim>\<open>try\<close> block of the script, from the login to the disconnect. The
  platform may treat the requests of the two publish calls differently (\<open>rejects_ast\<close>,
  \<open>rejects_trl\<close>); \<open>today\<close> is the formatted date of the run. Any exception of the
  block is re-raised as a plain \<^verbatim>\<open>Exception\<close>.
\<close>

definition publish_phase ::
  "(int \<Rightarrow> string) \<Rightarrow> (string option \<Rightarrow> string option \<Rightarrow> string option \<Rightarrow> error + session) \<Rightarrow>
   (string \<Rightarrow> string \<Rightarrow> bool) \<Rightarrow> (request \<Rightarrow> bool) \<Rightarrow> (request \<Rightarrow> bool) \<Rightarrow> string \<Rightarrow>
   string option \<Rightarrow> string option \<Rightarrow> string option \<Rightarrow> table \<Rightarrow> table \<Rightarrow> store \<Rightarrow>
   (error, unit, ago_manager \<times> store) outcome" where
  "publish_phase isoformat portal qmatch rejects_ast rejects_trl today h u p gdf_ast gdf_trl s =
     (let c = ago_connect portal (AGOManager h u p);
          ago = after c;
          lg0 = (INFO, ''Logging to AGO'') # logged c
      in case raised c of
           Some e \<Rightarrow> finally_disconnect (Some GenericException) lg0 ago s
         | None \<Rightarrow>
             (let r1 = publish_if_rows isoformat qmatch rejects_ast ago gdf_ast asset_title
                         ''bcparks_assets_v2''
                         (''Point dataset - BCParks assets (updated on '' @ today @ '')'')
                         assets_empty_message s;
                  lg1 = lg0 @ (INFO, ''Publishing the Assets dataset to AGO'') # logged r1
              in case raised r1 of
                   Some e \<Rightarrow> finally_disconnect (Some GenericException) lg1 ago (after r1)
                 | None \<Rightarrow>
                     (let r2 = publish_if_rows isoformat qmatch rejects_trl ago gdf_trl trail_title
                                 ''bcparks_trails_v2''
                                 (''Line dataset - BCParks trails (updated on '' @ today @ '')'')
                                 trails_empty_message (after r1);
                          lg2 = lg1 @ (INFO, ''Publishing the Trails dataset to AGO'') # logged r2
                      in case raised r2 of
                           Some e \<Rightarrow> finally_disconnect (Some GenericException) lg2 ago (after r2)
                         | None \<Rightarrow> finally_disconnect None lg2 ago (after r2))))"

section \<open>Vocabulary and samples for the statements about the content store\<close>

text \<open>
  The items that a publish under a title replaces: the user's GeoJson items of exactly
  that title.
\<close>

definition replaced :: "string \<Rightarrow> string \<Rightarrow> item \<Rightarrow> bool" where
  "replaced title username i \<longleftrightarrow>
     item_type i = ''GeoJson'' \<and> item_title i = title \<and> item_owner i = username"

text \<open>A store gives every item its own identifier, below the next one it will hand out.\<close>

definition store_ok :: "store \<Rightarrow> bool" where
  "store_ok s \<longleftrightarrow>
     distinct (map item_id (content s)) \<and> list_all (\<lambda>i. item_id i < next_id s) (content s)"

definition sample_item :: "nat \<Rightarrow> string \<Rightarrow> string \<Rightarrow> string \<Rightarrow> item" where
  "sample_item n title ty username =
     \<lparr>item_id = n, item_title = title, item_type = ty, item_owner = username,
      item_file = '''', item_folder = ''''\<rparr>"

text \<open>
  A store with two earlier uploads under the asset title, the feature service published
  from them, and three items that differ from them in title, in type or in owner.
\<close>

definition sample_store :: store where
  "sample_store =
     \<lparr>content =
        [sample_item 0 asset_title ''GeoJson'' ''dss'',
         sample_item 1 trail_title ''GeoJson'' ''dss'',
         sample_item 2 asset_title ''Feature Service'' ''dss'',
         sample_item 3 asset_title ''GeoJson'' ''someone'',
         sample_item 4 asset_title ''GeoJson'' ''dss''],
      next_id = 5\<rparr>"

definition sample_manager :: ago_manager where
  "sample_manager = (AGOManager None (Some ''dss'') None)\<lparr>gis := Some \<lparr>me = Some ''dss''\<rparr>\<rparr>"

text \<open>
  Publishing the sample asset frame under the asset title, on a platform whose search
  matches every title and that accepts every request.
\<close>

definition sample_publish :: "store \<Rightarrow> (error, unit, store) outcome" where
  "sample_publish =
     publish_feature_layer (\<lambda>t. '''') (\<lambda>q t. True) (\<lambda>r. False) sample_manager sample_out
       asset_title ''bcparks_assets_v2'' ''Point dataset - BCParks assets'' parc_folder"

definition sample_store_1 :: store where
  "sample_store_1 =
     \<lparr>content =
        [sample_item 1 trail_title ''GeoJson'' ''dss'',
         sample_item 2 asset_title ''Feature Service'' ''dss'',
         sample_item 3 asset_title ''GeoJson'' ''someone'',
         \<lparr>item_id = 5, item_title = asset_title, item_type = ''GeoJson'', item_owner = ''dss'',
          item_file = ''bcparks_assets_v2.geojson'', item_folder = parc_folder\<rparr>],
      next_id = 6\<rparr>"

definition sample_store_2 :: store where
  "sample_store_2 =
     \<lparr>content =
        [sample_item 1 trail_title ''GeoJson'' ''dss'',
         sample_item 2 asset_title ''Feature Service'' ''dss'',
         sample_item 3 asset_title ''GeoJson'' ''someone'',
         \<lparr>item_id = 6, item_title = asset_title, item_type = ''GeoJson'', item_owner = ''dss'',
          item_file = ''bcparks_assets_v2.geojson'', item_folder = parc_folder\<rparr>],
      next_id = 7\<rparr>"

text \<open>An asset frame without rows, a trail frame with one line, and a login as the sample user.\<close>

definition no_assets :: table where
  "no_assets = \<lparr>cols = sample_out_cols, rows = []\<rparr>"

definition sample_trails :: table where
  "sample_trails =
     \<lparr>cols = [(''Asset ID'', Object), (''Trail Name'', Object), (''geometry'', GeometryT)],
      rows = [[Str ''T1'', Str ''Panorama Ridge'',
               Geom (LineString [(- 123, 49.9), (- 123.01, 49.95)])]]\<rparr>"

definition sample_portal :: "string option \<Rightarrow> string option \<Rightarrow> string option \<Rightarrow> error + session" where
  "sample_portal h u p = Inr \<lparr>me = u\<rparr>"

definition sample_phase :: "(error, unit, ago_manager \<times> store) outcome" where
  "sample_phase =
     publish_phase (\<lambda>t. '''') sample_portal (\<lambda>q t. True) (\<lambda>r. False) (\<lambda>r. False)
       ''November 04, 2026'' None (Some ''dss'') None no_assets sample_trails sample_store"

definition sample_trail_publish :: "(error, unit, store) outcome" where
  "sample_trail_publish =
     publish_feature_layer (\<lambda>t. '''') (\<lambda>q t. True) (\<lambda>r. False) sample_manager sample_trails
       trail_title ''bcparks_trails_v2''
       (''Line dataset - BCParks trails (updated on '' @ ''November 04, 2026'' @ '')'')
       parc_folder sample_store"

text \<open>
  A run with asset rows and no trail rows, on a platform that rejects the upload of the
  asset document.
\<close>

definition no_trails :: table where
  "no_trails = \<lparr>cols = cols sample_trails, rows = []\<rparr>"

definition rejected_phase :: "(error, unit, ago_manager \<times> store) outcome" where
  "rejected_phase =
     publish_phase (\<lambda>t. '''') sample_portal (\<lambda>q t. True) (\<lambda>r. r = Add) (\<lambda>r. False)
       ''November 04, 2026'' None (Some ''dss'') None sample_out no_trails sample_store"

section \<open>Sample connections\<close>

definition no_creds :: credentials where
  "no_creds = \<lparr>dbname = None, user = None, password = None, host = None, port = None\<rparr>"

definition broken_connection :: connection where
  "broken_connection = \<lparr>db = [], close_raises = Some InterfaceError\<rparr>"

definition only_projects :: connection where
  "only_projects =
     \<lparr>db = [(''qgis_projects'', \<lparr>cols = [(''name'', Object)], rows = [[Str ''parks'']]\<rparr>)],
      close_raises = None\<rparr>"




section \<open>Properties of the asset transformer\<close>

subsection \<open>Columns by label\<close>

lemma positions_from_set:
  "set (positions_from i l ls) = {i + j |j. j < length ls \<and> ls ! j = l}"
proof (induction ls arbitrary: i)
  case Nil
  then show ?case by simp
next
  case (Cons x xs)
  have split: "\<And>P. {i + j |j. j < Suc (length xs) \<and> P j} =
      (if P 0 then {i} else {}) \<union> {Suc i + j |j. j < length xs \<and> P (Suc j)}"
    apply (auto simp: less_Suc_eq_0_disj)
    done
  show ?case
    using Cons.IH [of "Suc i"] by (simp add: split)
qed

lemma positions_set: "set (positions l ls) = {j. j < length ls \<and> ls ! j = l}"
  by (simp add: positions_def positions_from_set)

lemma positions_bound: "i \<in> set (positions l ls) \<Longrightarrow> i < length ls \<and> ls ! i = l"
  by (simp add: positions_set)

lemma positions_from_length:
  "length (positions_from i l ls) = count_list ls l"
  by (induction ls arbitrary: i) auto

lemma positions_length: "length (positions l ls) = count_list ls l"
  by (simp add: positions_def positions_from_length)

lemma positions_from_append:
  "positions_from i l (xs @ ys) = positions_from i l xs @ positions_from (i + length xs) l ys"
  by (induction xs arbitrary: i) auto

lemma positions_from_notin: "l \<notin> set ys \<Longrightarrow> positions_from i l ys = []"
  by (induction ys arbitrary: i) auto

lemma positions_append_notin:
  "l \<notin> set ys \<Longrightarrow> positions l (xs @ ys) = positions l xs"
  by (simp add: positions_def positions_from_append positions_from_notin)

lemma get_series_Inr:
  "get_series ls l = Inr i \<longleftrightarrow> positions l ls = [i]"
  by (auto simp: get_series_def split: list.splits)

lemma get_series_nth:
  "get_series ls l = Inr i \<Longrightarrow> i < length ls \<and> ls ! i = l"
  using positions_bound [of i l ls] by (simp add: get_series_Inr)

lemma get_indexer_concat:
  "get_indexer ls ks = Inr ix \<longleftrightarrow> (\<forall>k \<in> set ks. positions k ls \<noteq> []) \<and> ix = concat (map (\<lambda>k. positions k ls) ks)"
proof (induction ks arbitrary: ix)
  case Nil
  then show ?case by auto
next
  case (Cons k ks)
  then show ?case
    by (cases "positions k ls"; cases "get_indexer ls ks") auto
qed

lemma get_indexer_bound:
  "get_indexer ls ks = Inr ix \<Longrightarrow> i \<in> set ix \<Longrightarrow> i < length ls"
  by (auto simp: get_indexer_concat positions_set)

lemma labels_rename_columns:
  "labels (rename_columns m df) = map (rename_label m) (labels df)"
  by (simp add: labels_def rename_columns_def case_prod_unfold comp_def)

lemma labels_take_columns:
  "\<forall>i \<in> set ix. i < length (cols df) \<Longrightarrow>
   labels (take_columns ix df) = map (\<lambda>i. labels df ! i) ix"
  by (simp add: labels_def take_columns_def)

lemma traverse_Inr:
  "traverse f xs = Inr ys \<Longrightarrow> list_all2 (\<lambda>x y. f x = Inr y) xs ys"
  by (induction xs arbitrary: ys) (auto split: sum.splits)

lemma traverse_total:
  "\<forall>x \<in> set xs. f x = Inr (g x) \<Longrightarrow> traverse f xs = Inr (map g xs)"
  by (induction xs) auto

lemma in_bc_numbers:
  assumes "in_bc ilat ilon r"
  shows "\<exists>y x. r ! ilat = Num y \<and> r ! ilon = Num x \<and>
           lat_min \<le> y \<and> y \<le> lat_max \<and> lon_min \<le> x \<and> x \<le> lon_max"
proof -
  from assms have lat: "ge_num (r ! ilat) lat_min" "le_num (r ! ilat) lat_max"
    and lon: "ge_num (r ! ilon) lon_min" "le_num (r ! ilon) lon_max"
    by (simp_all add: in_bc_def)
  from lat obtain y where y: "r ! ilat = Num y" "lat_min \<le> y" "y \<le> lat_max"
    by (cases "r ! ilat") (auto simp: lat_min_def split: if_splits)
  from lon obtain x where x: "r ! ilon = Num x" "lon_min \<le> x" "x \<le> lon_max"
    by (cases "r ! ilon") (auto simp: lon_max_def split: if_splits)
  from x y show ?thesis by blast
qed

lemma in_bc_iff:
  "in_bc ilat ilon r \<longleftrightarrow>
     (\<exists>y x. r ! ilat = Num y \<and> r ! ilon = Num x \<and>
        lat_min \<le> y \<and> y \<le> lat_max \<and> lon_min \<le> x \<and> x \<le> lon_max)"
  using in_bc_numbers [of ilat ilon r] by (auto simp: in_bc_def)

lemma filter_categories_Inr:
  assumes "filter_categories df = Inr df1"
  obtains ic where "get_series (labels df) ''asset_category'' = Inr ic"
    and "cols df1 = cols df"
    and "rows df1 = filter (\<lambda>r. isin cats (r ! ic)) (rows df)"
  using assms by (auto simp: filter_categories_def split: sum.splits)

lemma select_columns_Inr:
  assumes "select_columns ks df = Inr df2"
  obtains ix where "get_indexer (labels df) ks = Inr ix"
    and "cols df2 = map (\<lambda>i. cols df ! i) ix"
    and "rows df2 = map (\<lambda>r. map (\<lambda>i. r ! i) ix) (rows df)"
  using assms by (auto simp: select_columns_def take_columns_def split: sum.splits)

lemma dropna_Inr:
  assumes "dropna [a, b] df = Inr df3"
    and "get_series (labels df) a = Inr i" and "get_series (labels df) b = Inr j"
  shows "cols df3 = cols df"
    and "rows df3 = filter (\<lambda>r. \<not> isna (r ! i) \<and> \<not> isna (r ! j)) (rows df)"
  using assms by (auto simp: dropna_def get_series_Inr split: sum.splits list.splits)

lemma dropna_cols: "dropna ks df = Inr df3 \<Longrightarrow> cols df3 = cols df"
  by (auto simp: dropna_def split: sum.splits)

lemma filter_bc_Inr:
  assumes "filter_bc latcol loncol df = Inr df4"
  obtains ilat ilon where "get_series (labels df) latcol = Inr ilat"
    and "get_series (labels df) loncol = Inr ilon"
    and "cols df4 = cols df"
    and "rows df4 = filter (in_bc ilat ilon) (rows df)"
  using assms by (auto simp: filter_bc_def split: sum.splits if_splits)

lemma add_point_geometry_Inr:
  assumes "add_point_geometry latcol loncol df = Inr gdf"
    and "get_series (labels df) latcol = Inr ilat"
    and "get_series (labels df) loncol = Inr ilon"
    and "\<forall>r \<in> set (rows df). in_bc ilat ilon r"
  shows "cols gdf = cols df @ [(''geometry'', GeometryT)]"
    and "rows gdf = map (\<lambda>r. r @ [Geom (Point (num_value (r ! ilon)) (num_value (r ! ilat)))]) (rows df)"
proof -
  let ?g = "\<lambda>r. Geom (Point (num_value (r ! ilon)) (num_value (r ! ilat)))"
  have "\<forall>r \<in> set (rows df). point_from_xy (r ! ilon) (r ! ilat) = Inr (?g r)"
  proof
    fix r assume "r \<in> set (rows df)"
    with assms(4) have "in_bc ilat ilon r" by blast
    then obtain y x where "r ! ilat = Num y" "r ! ilon = Num x"
      using in_bc_numbers by blast
    then show "point_from_xy (r ! ilon) (r ! ilat) = Inr (?g r)"
      by (simp add: point_from_xy_def num_value_def)
  qed
  then have tr: "traverse (\<lambda>r. point_from_xy (r ! ilon) (r ! ilat)) (rows df) = Inr (map ?g (rows df))"
    by (rule traverse_total)
  from assms(1-3) tr have g: "gdf = \<lparr>cols = cols df @ [(''geometry'', GeometryT)],
      rows = map (\<lambda>(r, g). r @ [g]) (zip (rows df) (map ?g (rows df)))\<rparr>"
    by (simp add: add_point_geometry_def)
  show "cols gdf = cols df @ [(''geometry'', GeometryT)]" by (simp add: g)
  have "map (\<lambda>(r, g). r @ [g]) (zip (rows df) (map ?g (rows df))) = map (\<lambda>r. r @ [?g r]) (rows df)"
    by (simp add: zip_map2 zip_same_conv_map comp_def case_prod_unfold)
  then show "rows gdf = map (\<lambda>r. r @ [?g r]) (rows df)" by (simp add: g)
qed

lemma in_bc_not_na: "in_bc i j r \<Longrightarrow> \<not> isna (r ! i) \<and> \<not> isna (r ! j)"
  using in_bc_numbers [of i j r] by auto

lemma process_assets_form:
  assumes "process_assets fmt df latcol loncol = Inr out"
  obtains ic ix jlat jlon where
    "get_series (labels df) ''asset_category'' = Inr ic"
    "get_indexer (map (rename_label ast_cols) (labels df)) (map snd ast_cols) = Inr ix"
    "get_series (map (\<lambda>i. map (rename_label ast_cols) (labels df) ! i) ix) latcol = Inr jlat"
    "get_series (map (\<lambda>i. map (rename_label ast_cols) (labels df) ! i) ix) loncol = Inr jlon"
    "cols out = map (\<lambda>i. cols (rename_columns ast_cols df) ! i) ix @ [(''geometry'', GeometryT)]"
    "rows out =
       map (\<lambda>r. map (\<lambda>((l, d), c). astype_str fmt d c)
                (zip (cols out)
                   (map (\<lambda>i. r ! i) ix @
                    [Geom (Point (num_value (r ! (ix ! jlon))) (num_value (r ! (ix ! jlat))))])))
         (filter (\<lambda>r. isin cats (r ! ic) \<and> in_bc (ix ! jlat) (ix ! jlon) r) (rows df))"
proof -
  let ?rl = "map (rename_label ast_cols) (labels df)"
  from assms obtain df1 df2 df3 df4 gdf where
    s1: "filter_categories df = Inr df1" and
    s2: "select_columns (map snd ast_cols) (rename_columns ast_cols df1) = Inr df2" and
    s3: "dropna [latcol, loncol] df2 = Inr df3" and
    s4: "filter_bc latcol loncol df3 = Inr df4" and
    s5: "add_point_geometry latcol loncol df4 = Inr gdf" and
    s6: "out = object_cols_to_str fmt gdf"
    by (auto simp: process_assets_def split: sum.splits)
  from s1 obtain ic where ic: "get_series (labels df) ''asset_category'' = Inr ic"
    and c1: "cols df1 = cols df"
    and r1: "rows df1 = filter (\<lambda>r. isin cats (r ! ic)) (rows df)"
    by (rule filter_categories_Inr)
  have l1: "labels (rename_columns ast_cols df1) = ?rl"
    unfolding labels_rename_columns by (simp add: labels_def c1)
  have cr: "cols (rename_columns ast_cols df1) = cols (rename_columns ast_cols df)"
    by (simp add: rename_columns_def c1)
  have rr: "rows (rename_columns ast_cols df1) = rows df1"
    by (simp add: rename_columns_def)
  from s2 obtain ix where ix: "get_indexer ?rl (map snd ast_cols) = Inr ix"
    and c2: "cols df2 = map (\<lambda>i. cols (rename_columns ast_cols df) ! i) ix"
    and r2: "rows df2 = map (\<lambda>r. map (\<lambda>i. r ! i) ix) (rows df1)"
    by (rule select_columns_Inr) (simp_all add: l1 cr rr)
  have bound: "\<forall>i \<in> set ix. i < length (cols df)"
    using get_indexer_bound [OF ix] by (simp add: labels_def)
  have l2: "labels df2 = map (\<lambda>i. ?rl ! i) ix"
    using bound by (simp add: labels_def c2 rename_columns_def case_prod_unfold)
  have c3: "cols df3 = cols df2" using s3 by (rule dropna_cols)
  from s4 obtain jlat jlon where jlat: "get_series (labels df2) latcol = Inr jlat"
    and jlon: "get_series (labels df2) loncol = Inr jlon"
    and c4: "cols df4 = cols df2"
    and r4: "rows df4 = filter (in_bc jlat jlon) (rows df3)"
    by (rule filter_bc_Inr) (simp_all add: labels_def c3)
  have r3: "rows df3 = filter (\<lambda>r. \<not> isna (r ! jlat) \<and> \<not> isna (r ! jlon)) (rows df2)"
    using dropna_Inr(2) [OF s3 jlat jlon] .
  have r4': "rows df4 = filter (in_bc jlat jlon) (rows df2)"
    unfolding r4 r3 filter_filter
    by (rule filter_cong) (auto dest: in_bc_not_na)
  have all4: "\<forall>r \<in> set (rows df4). in_bc jlat jlon r"
    by (simp add: r4)
  have l4: "labels df4 = labels df2" by (simp add: labels_def c4)
  note g = add_point_geometry_Inr [OF s5 jlat [folded l4] jlon [folded l4] all4]
  have jb: "jlat < length ix" "jlon < length ix"
    using get_series_nth [OF jlat] get_series_nth [OF jlon] by (simp_all add: l2)
  have proj: "in_bc jlat jlon (map (\<lambda>i. r ! i) ix) = in_bc (ix ! jlat) (ix ! jlon) r" for r :: "cell list"
    using jb by (simp add: in_bc_def)
  have r4'': "rows df4 = map (\<lambda>r. map (\<lambda>i. r ! i) ix)
      (filter (\<lambda>r. isin cats (r ! ic) \<and> in_bc (ix ! jlat) (ix ! jlon) r) (rows df))"
    unfolding r4' r2 r1 filter_map filter_filter comp_def proj
    by (simp add: conj_commute)
  have co: "cols out = map (\<lambda>i. cols (rename_columns ast_cols df) ! i) ix @ [(''geometry'', GeometryT)]"
    by (simp add: s6 object_cols_to_str_def g(1) c4 c2)
  have ro: "rows out =
       map (\<lambda>r. map (\<lambda>((l, d), c). astype_str fmt d c)
                (zip (cols out)
                   (map (\<lambda>i. r ! i) ix @
                    [Geom (Point (num_value (r ! (ix ! jlon))) (num_value (r ! (ix ! jlat))))])))
         (filter (\<lambda>r. isin cats (r ! ic) \<and> in_bc (ix ! jlat) (ix ! jlon) r) (rows df))"
    using jb by (simp add: s6 object_cols_to_str_def g r4'' comp_def)
  show thesis
    using that [OF ic ix jlat [unfolded l2] jlon [unfolded l2] co ro] .
qed

lemma num_between_iff: "num_between lo hi c \<longleftrightarrow> (\<exists>y. c = Num y \<and> lo \<le> y \<and> y \<le> hi)"
  by (cases c) auto

lemma in_bc_between:
  "in_bc i j r \<longleftrightarrow> num_between lat_min lat_max (r ! i) \<and> num_between lon_min lon_max (r ! j)"
  unfolding in_bc_iff num_between_iff by blast

lemma count_list_all_eq: "\<forall>x \<in> set xs. f x = v \<Longrightarrow> count_list (map f xs) v = length xs"
  by (induction xs) auto

lemma indexer_unique_source:
  assumes ix: "get_indexer ls ks = Inr ix" and v: "v \<in> set ks"
    and one: "positions v (map (\<lambda>i. ls ! i) ix) = [j]"
  shows "positions v ls = [ix ! j]"
proof -
  from ix have ne: "positions v ls \<noteq> []" and cc: "ix = concat (map (\<lambda>k. positions k ls) ks)"
    using v by (simp_all add: get_indexer_concat)
  from v obtain ks1 ks2 where "ks = ks1 @ v # ks2" by (meson split_list)
  then obtain A B where ab: "ix = A @ positions v ls @ B"
    by (simp add: cc)
  have "count_list (map (\<lambda>i. ls ! i) (positions v ls)) v = length (positions v ls)"
    by (rule count_list_all_eq) (simp add: positions_set)
  then have "length (positions v ls) \<le> count_list (map (\<lambda>i. ls ! i) ix) v"
    by (simp add: ab)
  also have "\<dots> = 1"
    using positions_length [of v "map (\<lambda>i. ls ! i) ix"] by (simp add: one)
  finally have "length (positions v ls) = 1"
    using ne by (cases "positions v ls") auto
  then obtain p where p: "positions v ls = [p]"
    by (cases "positions v ls") auto
  have "j \<in> set (positions v (map (\<lambda>i. ls ! i) ix))" by (simp add: one)
  then have j: "j < length ix" "ls ! (ix ! j) = v"
    by (auto simp: positions_set)
  then have "ix ! j < length ls"
    using get_indexer_bound [OF ix] by simp
  with j have "ix ! j \<in> set (positions v ls)" by (simp add: positions_set)
  then show ?thesis by (simp add: p)
qed

lemma get_indexer_covers:
  "get_indexer ls ks = Inr ix \<Longrightarrow> k \<in> set ks \<Longrightarrow> i \<in> set (positions k ls) \<Longrightarrow> i \<in> set ix"
  by (auto simp: get_indexer_concat)

lemma rename_category: "rename_label ast_cols ''asset_category'' = ''Category - Classification''"
  by (simp add: rename_label_def ast_cols_def)

lemma lat_in_values: "''GIS Latitude'' \<in> set (map snd ast_cols)"
  by (simp add: ast_cols_def)

lemma lon_in_values: "''GIS Longitude'' \<in> set (map snd ast_cols)"
  by (simp add: ast_cols_def)

lemma cat_in_values: "''Category - Classification'' \<in> set (map snd ast_cols)"
  by (simp add: ast_cols_def)

lemma astype_str_same: "same_value fmt c (astype_str fmt d c)"
  by (simp add: same_value_def astype_str_def)

lemma astype_str_Str: "astype_str fmt d (Str s) = Str s"
  by (simp add: astype_str_def)

text \<open>
  Claim C1. Whenever the transformer, called as the workflow calls it, returns a frame:
  the frame has a category column and unique latitude and longitude columns; its rows
  are, in order, the input rows whose category is in the allow-list, whose latitude is a
  number in [47, 60] and whose longitude is a number in [-145, -113], every other input
  row (category outside the list, a missing or an out-of-range coordinate) having no
  row in the output; and every output row has its category in the allow-list, its
  latitude in [47, 60] and its longitude in [-145, -113].
\<close>

theorem process_assets_rows:
  assumes run: "process_assets fmt df ''GIS Latitude'' ''GIS Longitude'' = Inr out"
  shows "\<exists>ic ilat ilon jc jlat jlon.
     get_series (labels df) ''asset_category'' = Inr ic \<and>
     get_series (map (rename_label ast_cols) (labels df)) ''GIS Latitude'' = Inr ilat \<and>
     get_series (map (rename_label ast_cols) (labels df)) ''GIS Longitude'' = Inr ilon \<and>
     jc \<in> set (positions ''Category - Classification'' (labels out)) \<and>
     get_series (labels out) ''GIS Latitude'' = Inr jlat \<and>
     get_series (labels out) ''GIS Longitude'' = Inr jlon \<and>
     list_all2 (\<lambda>r q. q ! jc = r ! ic \<and> same_value fmt (r ! ilat) (q ! jlat) \<and>
                      same_value fmt (r ! ilon) (q ! jlon))
       (filter (\<lambda>r. isin cats (r ! ic) \<and> num_between 47 60 (r ! ilat) \<and>
                    num_between (- 145) (- 113) (r ! ilon)) (rows df))
       (rows out) \<and>
     (\<forall>q \<in> set (rows out).
        isin cats (q ! jc) \<and>
        (\<exists>y. shows_number fmt (q ! jlat) y \<and> 47 \<le> y \<and> y \<le> 60) \<and>
        (\<exists>x. shows_number fmt (q ! jlon) x \<and> - 145 \<le> x \<and> x \<le> - 113))"
proof -
  let ?rl = "map (rename_label ast_cols) (labels df)"
  from run obtain ic ix jlat jlon where
    ic: "get_series (labels df) ''asset_category'' = Inr ic" and
    ix: "get_indexer ?rl (map snd ast_cols) = Inr ix" and
    jlat: "get_series (map (\<lambda>i. ?rl ! i) ix) ''GIS Latitude'' = Inr jlat" and
    jlon: "get_series (map (\<lambda>i. ?rl ! i) ix) ''GIS Longitude'' = Inr jlon" and
    co: "cols out = map (\<lambda>i. cols (rename_columns ast_cols df) ! i) ix @ [(''geometry'', GeometryT)]" and
    ro: "rows out =
       map (\<lambda>r. map (\<lambda>((l, d), c). astype_str fmt d c)
                (zip (cols out)
                   (map (\<lambda>i. r ! i) ix @
                    [Geom (Point (num_value (r ! (ix ! jlon))) (num_value (r ! (ix ! jlat))))])))
         (filter (\<lambda>r. isin cats (r ! ic) \<and> in_bc (ix ! jlat) (ix ! jlon) r) (rows df))"
    by (rule process_assets_form)
  define kept where "kept = filter (\<lambda>r. isin cats (r ! ic) \<and> in_bc (ix ! jlat) (ix ! jlon) r) (rows df)"
  define fin where "fin = (\<lambda>r. map (\<lambda>((l, d), c). astype_str fmt d c)
                (zip (cols out)
                   (map (\<lambda>i. r ! i) ix @
                    [Geom (Point (num_value (r ! (ix ! jlon))) (num_value (r ! (ix ! jlat))))])))"
  have ro': "rows out = map fin kept" by (simp add: ro kept_def fin_def)
  have bound: "\<forall>i \<in> set ix. i < length (cols df)"
    using get_indexer_bound [OF ix] by (simp add: labels_def)
  have lo: "labels out = map (\<lambda>i. ?rl ! i) ix @ [''geometry'']"
    using bound by (simp add: labels_def co rename_columns_def case_prod_unfold)
  have len: "length (cols out) = Suc (length ix)" by (simp add: co)
  have cell: "fin r ! j = astype_str fmt (snd (cols out ! j)) (r ! (ix ! j))"
    if "j < length ix" for r j
    using that len by (simp add: fin_def nth_append case_prod_unfold)
  \<comment> \<open>the source columns\<close>
  have ilat: "get_series ?rl ''GIS Latitude'' = Inr (ix ! jlat)"
    using indexer_unique_source [OF ix lat_in_values] jlat by (simp add: get_series_Inr)
  have ilon: "get_series ?rl ''GIS Longitude'' = Inr (ix ! jlon)"
    using indexer_unique_source [OF ix lon_in_values] jlon by (simp add: get_series_Inr)
  \<comment> \<open>the output columns\<close>
  have olat: "get_series (labels out) ''GIS Latitude'' = Inr jlat"
    using jlat by (simp add: lo get_series_Inr positions_append_notin)
  have olon: "get_series (labels out) ''GIS Longitude'' = Inr jlon"
    using jlon by (simp add: lo get_series_Inr positions_append_notin)
  have jb: "jlat < length ix" "jlon < length ix"
    using get_series_nth [OF jlat] get_series_nth [OF jlon] by simp_all
  from get_series_nth [OF ic] have icb: "ic < length (labels df)" "labels df ! ic = ''asset_category''"
    by simp_all
  then have "ic \<in> set (positions ''Category - Classification'' ?rl)"
    by (simp add: positions_set rename_category)
  then have "ic \<in> set ix"
    by (rule get_indexer_covers [OF ix cat_in_values])
  then obtain jc where jc: "jc < length ix" "ix ! jc = ic"
    by (auto simp: in_set_conv_nth)
  have ocat: "jc \<in> set (positions ''Category - Classification'' (labels out))"
    using jc icb by (simp add: positions_set lo nth_append rename_category)
  \<comment> \<open>the rows\<close>
  have kept_eq: "kept = filter (\<lambda>r. isin cats (r ! ic) \<and> num_between 47 60 (r ! (ix ! jlat)) \<and>
                    num_between (- 145) (- 113) (r ! (ix ! jlon))) (rows df)"
    by (simp add: kept_def in_bc_between lat_min_def lat_max_def lon_min_def lon_max_def)
  have rel: "list_all2 (\<lambda>r q. q ! jc = r ! ic \<and> same_value fmt (r ! (ix ! jlat)) (q ! jlat) \<and>
                      same_value fmt (r ! (ix ! jlon)) (q ! jlon)) kept (rows out)"
    unfolding ro' list_all2_map2 list_all2_same
  proof
    fix r assume "r \<in> set kept"
    then have "isin cats (r ! ic)" by (simp add: kept_def)
    then obtain s where "r ! ic = Str s" by (cases "r ! ic") auto
    then have "fin r ! jc = r ! ic"
      using jc by (simp add: cell astype_str_Str)
    then show "fin r ! jc = r ! ic \<and> same_value fmt (r ! (ix ! jlat)) (fin r ! jlat) \<and>
                      same_value fmt (r ! (ix ! jlon)) (fin r ! jlon)"
      using jb by (simp add: cell astype_str_same)
  qed
  have each: "isin cats (q ! jc) \<and>
        (\<exists>y. shows_number fmt (q ! jlat) y \<and> 47 \<le> y \<and> y \<le> 60) \<and>
        (\<exists>x. shows_number fmt (q ! jlon) x \<and> - 145 \<le> x \<and> x \<le> - 113)"
    if "q \<in> set (rows out)" for q
  proof -
    from that obtain r where r: "r \<in> set kept" and q: "q = fin r"
      by (auto simp: ro')
    from r have c: "isin cats (r ! ic)" and
      la: "num_between 47 60 (r ! (ix ! jlat))" and lo: "num_between (- 145) (- 113) (r ! (ix ! jlon))"
      by (simp_all add: kept_eq)
    from c obtain s where s: "r ! ic = Str s" by (cases "r ! ic") auto
    from la obtain y where y: "r ! (ix ! jlat) = Num y" "47 \<le> y" "y \<le> 60"
      by (auto simp: num_between_iff)
    from lo obtain x where x: "r ! (ix ! jlon) = Num x" "- 145 \<le> x" "x \<le> - 113"
      by (auto simp: num_between_iff)
    have 1: "isin cats (q ! jc)"
      using c jc by (simp add: q cell s astype_str_Str)
    have 2: "shows_number fmt (q ! jlat) y"
      using jb by (simp add: q cell y shows_number_def astype_str_def)
    have 3: "shows_number fmt (q ! jlon) x"
      using jb by (simp add: q cell x shows_number_def astype_str_def)
    from 1 2 3 x y show ?thesis by blast
  qed
  show ?thesis
    using ic ilat ilon ocat olat olon rel [unfolded kept_eq] each by blast
qed

lemmas run_defs = process_assets_def filter_categories_def labels_def get_series_def
  positions_def select_columns_def rename_columns_def rename_label_def ast_cols_def cats_def
  take_columns_def dropna_def filter_bc_def in_bc_def add_point_geometry_def
  point_from_xy_def object_cols_to_str_def astype_str_def lat_min_def lat_max_def
  lon_min_def lon_max_def

lemma sample_assets_run:
  "process_assets fmt sample_assets ''GIS Latitude'' ''GIS Longitude'' = Inr sample_out"
  by (simp add: run_defs sample_assets_def sample_cols_def sample_row_def sample_out_def
      sample_out_cols_def sample_out_row_def)

theorem process_assets_rows_witness:
  "process_assets (\<lambda>c. ''?'') sample_assets ''GIS Latitude'' ''GIS Longitude'' = Inr sample_out \<and>
   (\<exists>ic ilat ilon jc jlat jlon.
     get_series (labels sample_assets) ''asset_category'' = Inr ic \<and>
     get_series (map (rename_label ast_cols) (labels sample_assets)) ''GIS Latitude'' = Inr ilat \<and>
     get_series (map (rename_label ast_cols) (labels sample_assets)) ''GIS Longitude'' = Inr ilon \<and>
     jc \<in> set (positions ''Category - Classification'' (labels sample_out)) \<and>
     get_series (labels sample_out) ''GIS Latitude'' = Inr jlat \<and>
     get_series (labels sample_out) ''GIS Longitude'' = Inr jlon \<and>
     list_all2 (\<lambda>r q. q ! jc = r ! ic \<and> same_value (\<lambda>c. ''?'') (r ! ilat) (q ! jlat) \<and>
                      same_value (\<lambda>c. ''?'') (r ! ilon) (q ! jlon))
       (filter (\<lambda>r. isin cats (r ! ic) \<and> num_between 47 60 (r ! ilat) \<and>
                    num_between (- 145) (- 113) (r ! ilon)) (rows sample_assets))
       (rows sample_out) \<and>
     (\<forall>q \<in> set (rows sample_out).
        isin cats (q ! jc) \<and>
        (\<exists>y. shows_number (\<lambda>c. ''?'') (q ! jlat) y \<and> 47 \<le> y \<and> y \<le> 60) \<and>
        (\<exists>x. shows_number (\<lambda>c. ''?'') (q ! jlon) x \<and> - 145 \<le> x \<and> x \<le> - 113)))"
  using process_assets_rows [OF sample_assets_run [of "\<lambda>c. ''?''"]] sample_assets_run [of "\<lambda>c. ''?''"]
  by (rule_tac conjI)

subsection \<open>Source frames with every mapped column\<close>

lemma positions_from_map_iff:
  "\<forall>x \<in> set ls. f x = v \<longleftrightarrow> x = k \<Longrightarrow>
   positions_from i v (map f ls) = positions_from i k ls"
  by (induction ls arbitrary: i) auto

lemma positions_map_iff:
  "\<forall>x \<in> set ls. f x = v \<longleftrightarrow> x = k \<Longrightarrow> positions v (map f ls) = positions k ls"
  by (simp add: positions_def positions_from_map_iff)

lemma rename_label_eq_iff:
  assumes dk: "distinct (map fst m)" and dv: "distinct (map snd m)"
    and kv: "(k, v) \<in> set m" and x: "x \<notin> snd ` set m"
  shows "rename_label m x = v \<longleftrightarrow> x = k"
proof
  assume "x = k"
  with dk kv show "rename_label m x = v"
    by (simp add: rename_label_def)
next
  assume r: "rename_label m x = v"
  show "x = k"
  proof (cases "map_of m x")
    case None
    with r have "x = v" by (simp add: rename_label_def)
    with kv x show ?thesis by force
  next
    case (Some v')
    with r have "v' = v" by (simp add: rename_label_def)
    with Some have "(x, v) \<in> set m" by (simp add: map_of_SomeD)
    with kv dv show ?thesis
      by (metis distinct_map inj_onD snd_conv fst_conv)
  qed
qed

lemma ast_cols_distinct: "distinct (map fst ast_cols)" "distinct (map snd ast_cols)"
  by (simp_all add: ast_cols_def)

lemma source_columns_okD:
  assumes "source_columns_ok df" and "(k, v) \<in> set ast_cols"
  shows "count_list (labels df) k = 1" and "v \<notin> set (labels df)"
  using assms by (auto simp: source_columns_ok_def list_all_iff count_list_0_iff)

lemma source_positions:
  assumes ok: "source_columns_ok df" and kv: "(k, v) \<in> set ast_cols"
  shows "positions v (map (rename_label ast_cols) (labels df)) = positions k (labels df)"
    and "length (positions k (labels df)) = 1"
proof -
  have "\<forall>x \<in> set (labels df). rename_label ast_cols x = v \<longleftrightarrow> x = k"
  proof
    fix x assume "x \<in> set (labels df)"
    then have "x \<notin> snd ` set ast_cols"
      using source_columns_okD(2) [OF ok] by force
    then show "rename_label ast_cols x = v \<longleftrightarrow> x = k"
      by (rule rename_label_eq_iff [OF ast_cols_distinct kv])
  qed
  then show "positions v (map (rename_label ast_cols) (labels df)) = positions k (labels df)"
    by (rule positions_map_iff)
  show "length (positions k (labels df)) = 1"
    using source_columns_okD(1) [OF ok kv] by (simp add: positions_length)
qed

lemma map_nth_concat_positions:
  "\<forall>v \<in> set vs. length (positions v ls) = 1 \<Longrightarrow>
   map (\<lambda>i. ls ! i) (concat (map (\<lambda>v. positions v ls) vs)) = vs"
proof (induction vs)
  case Nil
  then show ?case by simp
next
  case (Cons v vs)
  then obtain p where p: "positions v ls = [p]"
    by (cases "positions v ls") auto
  then have "p \<in> set (positions v ls)" by simp
  then have "ls ! p = v" by (simp add: positions_set)
  with Cons p show ?case by simp
qed

lemma source_indexer:
  assumes ok: "source_columns_ok df"
  obtains ix where
    "get_indexer (map (rename_label ast_cols) (labels df)) (map snd ast_cols) = Inr ix"
    "map (\<lambda>i. map (rename_label ast_cols) (labels df) ! i) ix = map snd ast_cols"
proof -
  let ?rl = "map (rename_label ast_cols) (labels df)"
  have one: "\<forall>v \<in> set (map snd ast_cols). length (positions v ?rl) = 1"
    using source_positions [OF ok] by auto
  then have ne: "\<forall>v \<in> set (map snd ast_cols). positions v ?rl \<noteq> []"
    by auto
  show thesis
    using that [of "concat (map (\<lambda>v. positions v ?rl) (map snd ast_cols))"]
      map_nth_concat_positions [OF one] ne
    by (simp add: get_indexer_concat)
qed

lemma process_assets_labels:
  assumes "process_assets fmt df latcol loncol = Inr out"
  obtains ix where
    "get_indexer (map (rename_label ast_cols) (labels df)) (map snd ast_cols) = Inr ix"
    "labels out = map (\<lambda>i. map (rename_label ast_cols) (labels df) ! i) ix @ [''geometry'']"
proof -
  from assms obtain ic ix jlat jlon where
    ix: "get_indexer (map (rename_label ast_cols) (labels df)) (map snd ast_cols) = Inr ix" and
    co: "cols out = map (\<lambda>i. cols (rename_columns ast_cols df) ! i) ix @ [(''geometry'', GeometryT)]"
    by (rule process_assets_form)
  have bound: "\<forall>i \<in> set ix. i < length (cols df)"
    using get_indexer_bound [OF ix] by (simp add: labels_def)
  have "labels out = map (\<lambda>i. map (rename_label ast_cols) (labels df) ! i) ix @ [''geometry'']"
    using bound by (simp add: labels_def co rename_columns_def case_prod_unfold)
  with ix show thesis by (rule that)
qed

text \<open>
  Claim C3, amended. For every input frame in which each of the 13 mapped source columns
  occurs exactly once and no column already carries one of the 13 target names, the
  columns of the transformer's output are the values of the rename mapping in their
  declared order, followed by geometry: 14 columns, and no other input column is left.
  (Without the condition on the target names the claim fails: an input column already
  labelled Park is kept beside the renamed one, as the frame \<open>park_twice\<close> shows.)
\<close>

theorem process_assets_columns:
  assumes ok: "source_columns_ok df"
    and run: "process_assets fmt df latcol loncol = Inr out"
  shows "labels out = map snd ast_cols @ [''geometry''] \<and> length (cols out) = 14"
proof -
  from run obtain ix where
    ix: "get_indexer (map (rename_label ast_cols) (labels df)) (map snd ast_cols) = Inr ix" and
    lo: "labels out = map (\<lambda>i. map (rename_label ast_cols) (labels df) ! i) ix @ [''geometry'']"
    by (rule process_assets_labels)
  from ok obtain ix' where
    "get_indexer (map (rename_label ast_cols) (labels df)) (map snd ast_cols) = Inr ix'"
    "map (\<lambda>i. map (rename_label ast_cols) (labels df) ! i) ix' = map snd ast_cols"
    by (rule source_indexer)
  with ix lo have l: "labels out = map snd ast_cols @ [''geometry'']" by simp
  have "length (labels out) = 14" by (simp add: l ast_cols_def)
  then have "length (cols out) = 14" by (simp add: labels_def)
  with l show ?thesis by simp
qed

lemma float_cell_comparable: "float_cell c \<Longrightarrow> comparable c"
  by (cases c) auto

lemma values_positions:
  "positions ''GIS Latitude'' (map snd ast_cols) = [11]"
  "positions ''GIS Longitude'' (map snd ast_cols) = [12]"
  by (simp_all add: positions_def ast_cols_def)

lemma process_assets_succeeds:
  assumes ok: "source_columns_ok df"
    and ic: "get_series (labels df) ''asset_category'' = Inr ic"
    and ilat: "get_series (labels df) ''gis_latitude'' = Inr ilat"
    and ilon: "get_series (labels df) ''gis_longitude'' = Inr ilon"
    and fl: "\<forall>r \<in> set (rows df). float_cell (r ! ilat) \<and> float_cell (r ! ilon)"
  shows "\<exists>out. process_assets fmt df ''GIS Latitude'' ''GIS Longitude'' = Inr out \<and>
     length (rows out) =
       length (filter (\<lambda>r. isin cats (r ! ic) \<and> num_between 47 60 (r ! ilat) \<and>
                            num_between (- 145) (- 113) (r ! ilon)) (rows df))"
proof -
  let ?rl = "map (rename_label ast_cols) (labels df)"
  let ?vs = "map snd ast_cols"
  define df1 where "df1 = df\<lparr>rows := filter (\<lambda>r. isin cats (r ! ic)) (rows df)\<rparr>"
  have s1: "filter_categories df = Inr df1"
    by (simp add: filter_categories_def ic df1_def)
  from ok obtain ix where ix: "get_indexer ?rl ?vs = Inr ix"
    and vs: "map (\<lambda>i. ?rl ! i) ix = ?vs"
    by (rule source_indexer)
  have l1: "labels (rename_columns ast_cols df1) = ?rl"
    unfolding labels_rename_columns by (simp add: labels_def df1_def)
  define df2 where "df2 = take_columns ix (rename_columns ast_cols df1)"
  have s2: "select_columns ?vs (rename_columns ast_cols df1) = Inr df2"
    by (simp add: select_columns_def l1 ix df2_def)
  have bound: "\<forall>i \<in> set ix. i < length (cols (rename_columns ast_cols df1))"
    using get_indexer_bound [OF ix] by (simp add: rename_columns_def df1_def labels_def)
  have l2: "labels df2 = ?vs"
    unfolding df2_def using labels_take_columns [OF bound] by (simp add: l1 vs)
  have r2: "rows df2 = map (\<lambda>r. map (\<lambda>i. r ! i) ix) (rows df1)"
    by (simp add: df2_def take_columns_def rename_columns_def)
  have len: "length ix = 13"
    using arg_cong [OF vs, of length] by (simp add: ast_cols_def)
  \<comment> \<open>the coordinate columns of the projected frame are those of the source\<close>
  have src: "positions v ?rl = positions k (labels df)" if "(k, v) \<in> set ast_cols" for k v
    using source_positions(1) [OF ok that] .
  have at: "ix ! j \<in> set (positions (?vs ! j) ?rl)" if "j < 13" for j
  proof -
    have "ix ! j < length ?rl" using get_indexer_bound [OF ix] that len by simp
    moreover have "?rl ! (ix ! j) = ?vs ! j"
      using arg_cong [OF vs, of "\<lambda>xs. xs ! j"] that len by simp
    ultimately show ?thesis by (simp add: positions_set)
  qed
  have "ix ! 11 \<in> set (positions ''GIS Latitude'' ?rl)"
    using at [of 11] by (simp add: ast_cols_def)
  then have i11: "ix ! 11 = ilat"
    using src [of "''gis_latitude''" "''GIS Latitude''"] ilat
    by (simp add: get_series_Inr ast_cols_def)
  have "ix ! 12 \<in> set (positions ''GIS Longitude'' ?rl)"
    using at [of 12] by (simp add: ast_cols_def)
  then have i12: "ix ! 12 = ilon"
    using src [of "''gis_longitude''" "''GIS Longitude''"] ilon
    by (simp add: get_series_Inr ast_cols_def)
  have jlat: "get_series (labels df2) ''GIS Latitude'' = Inr 11"
    and jlon: "get_series (labels df2) ''GIS Longitude'' = Inr 12"
    by (simp_all add: l2 get_series_Inr values_positions)
  define df3 where "df3 = df2\<lparr>rows := filter (\<lambda>r. \<not> list_ex (\<lambda>i. isna (r ! i)) [11, 12]) (rows df2)\<rparr>"
  have s3: "dropna [''GIS Latitude'', ''GIS Longitude''] df2 = Inr df3"
    by (simp add: dropna_def l2 values_positions df3_def)
  have l3: "labels df3 = labels df2" by (simp add: df3_def labels_def)
  have cell2: "map (\<lambda>i. r ! i) ix ! 11 = r ! ilat" "map (\<lambda>i. r ! i) ix ! 12 = r ! ilon" for r :: "cell list"
    using len i11 i12 by simp_all
  have fl3: "list_all (\<lambda>r. comparable (r ! 11)) (rows df3) \<and> list_all (\<lambda>r. comparable (r ! 12)) (rows df3)"
    using fl by (auto simp: df3_def r2 df1_def list_all_iff cell2 float_cell_comparable)
  define df4 where "df4 = df3\<lparr>rows := filter (in_bc 11 12) (rows df3)\<rparr>"
  have s4: "filter_bc ''GIS Latitude'' ''GIS Longitude'' df3 = Inr df4"
    using fl3 by (simp add: filter_bc_def l3 jlat jlon df4_def)
  have l4: "labels df4 = labels df2" by (simp add: df4_def df3_def labels_def)
  have "\<forall>r \<in> set (rows df4). point_from_xy (r ! 12) (r ! 11) =
      Inr (Geom (Point (num_value (r ! 12)) (num_value (r ! 11))))"
  proof
    fix r assume "r \<in> set (rows df4)"
    then have "in_bc 11 12 r" by (simp add: df4_def)
    then obtain y x where "r ! 11 = Num y" "r ! 12 = Num x"
      using in_bc_numbers by blast
    then show "point_from_xy (r ! 12) (r ! 11) =
      Inr (Geom (Point (num_value (r ! 12)) (num_value (r ! 11))))"
      by (simp add: point_from_xy_def num_value_def)
  qed
  then have tr: "traverse (\<lambda>r. point_from_xy (r ! 12) (r ! 11)) (rows df4) =
      Inr (map (\<lambda>r. Geom (Point (num_value (r ! 12)) (num_value (r ! 11)))) (rows df4))"
    by (rule traverse_total)
  then obtain gdf where s5: "add_point_geometry ''GIS Latitude'' ''GIS Longitude'' df4 = Inr gdf"
    by (simp add: add_point_geometry_def l4 jlat jlon)
  have run: "process_assets fmt df ''GIS Latitude'' ''GIS Longitude'' = Inr (object_cols_to_str fmt gdf)"
    by (simp add: process_assets_def s1 s2 s3 s4 s5)
  \<comment> \<open>the number of rows\<close>
  from run obtain ic' ix' jlat' jlon' where
    ic': "get_series (labels df) ''asset_category'' = Inr ic'" and
    ix': "get_indexer ?rl ?vs = Inr ix'" and
    jlat': "get_series (map (\<lambda>i. ?rl ! i) ix') ''GIS Latitude'' = Inr jlat'" and
    jlon': "get_series (map (\<lambda>i. ?rl ! i) ix') ''GIS Longitude'' = Inr jlon'" and
    ro: "rows (object_cols_to_str fmt gdf) =
       map (\<lambda>r. map (\<lambda>((l, d), c). astype_str fmt d c)
                (zip (cols (object_cols_to_str fmt gdf))
                   (map (\<lambda>i. r ! i) ix' @
                    [Geom (Point (num_value (r ! (ix' ! jlon'))) (num_value (r ! (ix' ! jlat'))))])))
         (filter (\<lambda>r. isin cats (r ! ic') \<and> in_bc (ix' ! jlat') (ix' ! jlon') r) (rows df))"
    by (rule process_assets_form)
  from ic ic' ix ix' have same: "ic' = ic" "ix' = ix" by simp_all
  from jlat' jlon' have "jlat' = 11" "jlon' = 12"
    by (simp_all add: same vs get_series_Inr values_positions)
  then have "length (rows (object_cols_to_str fmt gdf)) =
      length (filter (\<lambda>r. isin cats (r ! ic) \<and> in_bc ilat ilon r) (rows df))"
    by (simp add: ro same i11 i12)
  then show ?thesis
    using run by (simp add: in_bc_between lat_min_def lat_max_def lon_min_def lon_max_def)
qed

lemma filter_split_length:
  "length (filter P xs) = length (filter (\<lambda>x. P x \<and> Q x) xs) + length (filter (\<lambda>x. P x \<and> \<not> Q x) xs)"
  by (induction xs) auto

lemma filter_disjoint_cover:
  assumes "length (filter P xs) + length (filter Q xs) = length xs"
    and "\<forall>x. \<not> (P x \<and> Q x)"
  shows "\<forall>x \<in> set xs. P x \<or> Q x"
proof -
  have "length (filter (\<lambda>x. P x \<or> Q x) xs) = length (filter P xs) + length (filter Q xs)"
    using assms(2) by (induction xs) auto
  with assms(1) have "length (filter (\<lambda>x. P x \<or> Q x) xs) = length xs" by simp
  then show ?thesis
    by (metis (mono_tags, lifting) length_filter_less less_irrefl)
qed

lemma parking_not_listed: "\<not> isin cats (Str ''Parking'')"
  by (simp add: cats_def)

lemma signs_listed: "isin cats (Str ''Signs'')"
  by (simp add: cats_def)

text \<open>
  Claim C2. An input frame of 10 rows, 2 of category Parking and 8 of category Signs, one
  of the Signs rows without a longitude and another with longitude -200, the other six
  with coordinates inside the bounding box: the transformer returns exactly 6 rows. The
  frame has each mapped source column once, and float coordinate columns.
\<close>

theorem process_assets_scenario:
  assumes ok: "source_columns_ok df"
    and ic: "get_series (labels df) ''asset_category'' = Inr ic"
    and ilat: "get_series (labels df) ''gis_latitude'' = Inr ilat"
    and ilon: "get_series (labels df) ''gis_longitude'' = Inr ilon"
    and fl: "\<forall>r \<in> set (rows df). float_cell (r ! ilat) \<and> float_cell (r ! ilon)"
    and n: "length (rows df) = 10"
    and parking: "length (filter (\<lambda>r. r ! ic = Str ''Parking'') (rows df)) = 2"
    and signs: "length (filter (\<lambda>r. r ! ic = Str ''Signs'') (rows df)) = 8"
    and null: "length (filter (\<lambda>r. r ! ic = Str ''Signs'' \<and> isna (r ! ilon)) (rows df)) = 1"
    and far: "length (filter (\<lambda>r. r ! ic = Str ''Signs'' \<and> r ! ilon = Num (- 200)) (rows df)) = 1"
    and rest: "\<forall>r \<in> set (rows df).
        r ! ic = Str ''Signs'' \<and> \<not> isna (r ! ilon) \<and> r ! ilon \<noteq> Num (- 200) \<longrightarrow>
        num_between 47 60 (r ! ilat) \<and> num_between (- 145) (- 113) (r ! ilon)"
  shows "\<exists>out. process_assets fmt df ''GIS Latitude'' ''GIS Longitude'' = Inr out \<and>
           length (rows out) = 6"
proof -
  let ?S = "\<lambda>r. r ! ic = Str ''Signs''"
  let ?keep = "\<lambda>r. isin cats (r ! ic) \<and> num_between 47 60 (r ! ilat) \<and>
                      num_between (- 145) (- 113) (r ! ilon)"
  let ?good = "\<lambda>r. ?S r \<and> \<not> isna (r ! ilon) \<and> r ! ilon \<noteq> Num (- 200)"
  have cover: "\<forall>r \<in> set (rows df). r ! ic = Str ''Parking'' \<or> ?S r"
    by (rule filter_disjoint_cover) (simp_all add: parking signs n)
  have "filter ?keep (rows df) = filter ?good (rows df)"
  proof (rule filter_cong [OF refl])
    fix r assume r: "r \<in> set (rows df)"
    show "?keep r \<longleftrightarrow> ?good r"
    proof
      assume k: "?keep r"
      with cover r have "?S r" using parking_not_listed by auto
      moreover from k obtain x where "r ! ilon = Num x" "- 145 \<le> x"
        by (auto simp: num_between_iff)
      ultimately show "?good r" by auto
    next
      assume g: "?good r"
      with rest r have "num_between 47 60 (r ! ilat) \<and> num_between (- 145) (- 113) (r ! ilon)"
        by blast
      with g show "?keep r" using signs_listed by simp
    qed
  qed
  moreover have "length (filter ?good (rows df)) = 6"
  proof -
    have "length (filter ?S (rows df)) =
        length (filter (\<lambda>r. ?S r \<and> isna (r ! ilon)) (rows df)) +
        length (filter (\<lambda>r. ?S r \<and> \<not> isna (r ! ilon)) (rows df))"
      by (rule filter_split_length)
    with signs null have a: "length (filter (\<lambda>r. ?S r \<and> \<not> isna (r ! ilon)) (rows df)) = 7"
      by simp
    have "length (filter (\<lambda>r. ?S r \<and> \<not> isna (r ! ilon)) (rows df)) =
        length (filter (\<lambda>r. (?S r \<and> \<not> isna (r ! ilon)) \<and> r ! ilon = Num (- 200)) (rows df)) +
        length (filter (\<lambda>r. (?S r \<and> \<not> isna (r ! ilon)) \<and> r ! ilon \<noteq> Num (- 200)) (rows df))"
      by (rule filter_split_length)
    moreover have "filter (\<lambda>r. (?S r \<and> \<not> isna (r ! ilon)) \<and> r ! ilon = Num (- 200)) (rows df) =
        filter (\<lambda>r. ?S r \<and> r ! ilon = Num (- 200)) (rows df)"
      by (rule filter_cong) auto
    ultimately show ?thesis using a far by (simp add: conj_assoc)
  qed
  ultimately have "length (filter ?keep (rows df)) = 6" by simp
  with process_assets_succeeds [OF ok ic ilat ilon fl, of fmt] show ?thesis by simp
qed

lemma sample_columns_ok: "source_columns_ok sample_assets"
  by (simp add: source_columns_ok_def sample_assets_def sample_cols_def labels_def ast_cols_def)

lemma sample_series:
  "get_series (labels sample_assets) ''asset_category'' = Inr 4"
  "get_series (labels sample_assets) ''gis_latitude'' = Inr 11"
  "get_series (labels sample_assets) ''gis_longitude'' = Inr 12"
  by (simp_all add: get_series_def positions_def sample_assets_def sample_cols_def labels_def)

theorem process_assets_scenario_witness:
  "source_columns_ok sample_assets \<and>
   get_series (labels sample_assets) ''asset_category'' = Inr 4 \<and>
   get_series (labels sample_assets) ''gis_latitude'' = Inr 11 \<and>
   get_series (labels sample_assets) ''gis_longitude'' = Inr 12 \<and>
   list_all (\<lambda>r. float_cell (r ! 11) \<and> float_cell (r ! 12)) (rows sample_assets) \<and>
   length (rows sample_assets) = 10 \<and>
   length (filter (\<lambda>r. r ! 4 = Str ''Parking'') (rows sample_assets)) = 2 \<and>
   length (filter (\<lambda>r. r ! 4 = Str ''Signs'') (rows sample_assets)) = 8 \<and>
   length (filter (\<lambda>r. r ! 4 = Str ''Signs'' \<and> isna (r ! 12)) (rows sample_assets)) = 1 \<and>
   length (filter (\<lambda>r. r ! 4 = Str ''Signs'' \<and> r ! 12 = Num (- 200)) (rows sample_assets)) = 1 \<and>
   list_all (\<lambda>r. if r ! 4 = Str ''Signs'' \<and> \<not> isna (r ! 12) \<and> r ! 12 \<noteq> Num (- 200)
                 then num_between 47 60 (r ! 11) \<and> num_between (- 145) (- 113) (r ! 12)
                 else True) (rows sample_assets) \<and>
   (\<exists>out. process_assets (\<lambda>c. ''?'') sample_assets ''GIS Latitude'' ''GIS Longitude'' = Inr out \<and>
           length (rows out) = 6)"
proof -
  have fl: "\<forall>r \<in> set (rows sample_assets). float_cell (r ! 11) \<and> float_cell (r ! 12)"
    by (simp add: sample_assets_def sample_row_def)
  have n: "length (rows sample_assets) = 10"
    by (simp add: sample_assets_def)
  have parking: "length (filter (\<lambda>r. r ! 4 = Str ''Parking'') (rows sample_assets)) = 2"
    by (simp add: sample_assets_def sample_row_def)
  have signs: "length (filter (\<lambda>r. r ! 4 = Str ''Signs'') (rows sample_assets)) = 8"
    by (simp add: sample_assets_def sample_row_def)
  have null: "length (filter (\<lambda>r. r ! 4 = Str ''Signs'' \<and> isna (r ! 12)) (rows sample_assets)) = 1"
    by (simp add: sample_assets_def sample_row_def)
  have far: "length (filter (\<lambda>r. r ! 4 = Str ''Signs'' \<and> r ! 12 = Num (- 200)) (rows sample_assets)) = 1"
    by (simp add: sample_assets_def sample_row_def)
  have rest: "\<forall>r \<in> set (rows sample_assets).
        r ! 4 = Str ''Signs'' \<and> \<not> isna (r ! 12) \<and> r ! 12 \<noteq> Num (- 200) \<longrightarrow>
        num_between 47 60 (r ! 11) \<and> num_between (- 145) (- 113) (r ! 12)"
    by (simp add: sample_assets_def sample_row_def)
  note inst = process_assets_scenario [OF sample_columns_ok sample_series fl n parking signs null far rest,
      of "\<lambda>c. ''?''"]
  have fl': "list_all (\<lambda>r. float_cell (r ! 11) \<and> float_cell (r ! 12)) (rows sample_assets)"
    using fl by (simp add: list_all_iff)
  have rest': "list_all (\<lambda>r. if r ! 4 = Str ''Signs'' \<and> \<not> isna (r ! 12) \<and> r ! 12 \<noteq> Num (- 200)
                 then num_between 47 60 (r ! 11) \<and> num_between (- 145) (- 113) (r ! 12)
                 else True) (rows sample_assets)"
    using rest by (simp add: list_all_iff)
  show ?thesis
    using sample_columns_ok sample_series fl' n parking signs null far rest' inst by blast
qed

theorem process_assets_columns_witness:
  "source_columns_ok sample_assets \<and>
   process_assets (\<lambda>c. ''?'') sample_assets ''GIS Latitude'' ''GIS Longitude'' = Inr sample_out \<and>
   labels sample_out = map snd ast_cols @ [''geometry''] \<and> length (cols sample_out) = 14"
  using process_assets_columns [OF sample_columns_ok sample_assets_run [of "\<lambda>c. ''?''"]]
    sample_columns_ok sample_assets_run [of "\<lambda>c. ''?''"]
  by simp

lemma park_twice_run:
  "process_assets fmt park_twice ''GIS Latitude'' ''GIS Longitude'' = Inr park_twice_out"
  by (simp add: run_defs park_twice_def park_twice_out_def sample_cols_def sample_row_def)

theorem process_assets_columns_counterexample:
  "set (map fst ast_cols) \<subseteq> set (labels park_twice) \<and>
   ''Park'' \<in> set (labels park_twice) \<and> ''Park'' \<notin> set (map fst ast_cols) \<and>
   process_assets (\<lambda>c. ''?'') park_twice ''GIS Latitude'' ''GIS Longitude'' = Inr park_twice_out \<and>
   labels park_twice_out \<noteq> map snd ast_cols @ [''geometry''] \<and>
   map (\<lambda>r. r ! 3) (rows park_twice_out) = map (\<lambda>r. r ! 13) (rows park_twice)"
proof -
  have "set (map fst ast_cols) \<subseteq> set (labels park_twice)"
    by (simp add: ast_cols_def park_twice_def sample_cols_def labels_def)
  moreover have "''Park'' \<in> set (labels park_twice)" "''Park'' \<notin> set (map fst ast_cols)"
    by (simp_all add: ast_cols_def park_twice_def sample_cols_def labels_def)
  moreover have "labels park_twice_out \<noteq> map snd ast_cols @ [''geometry'']"
    by (simp add: ast_cols_def park_twice_out_def labels_def)
  moreover have "map (\<lambda>r. r ! 3) (rows park_twice_out) = map (\<lambda>r. r ! 13) (rows park_twice)"
    by (simp add: park_twice_out_def park_twice_def sample_row_def)
  ultimately show ?thesis using park_twice_run [of "\<lambda>c. ''?''"] by simp
qed

section \<open>Properties of the connectors\<close>

text \<open>
  Claim C8, amended. When the driver's connect fails with an \<^verbatim>\<open>OperationalError\<close>,
  \<^verbatim>\<open>connect\<close> logs the error and returns null, leaving the connection handle null,
  and raises nothing; a failure with any other exception leaves \<^verbatim>\<open>connect\<close> as
  that exception, unlogged, the manager unchanged. (The claim as stated, for every
  failure, fails on a \<^verbatim>\<open>ProgrammingError\<close>.)
\<close>

theorem pg_connect_failure:
  assumes "driver (creds m) = Inl e"
  shows "if is_OperationalError e
         then raised (pg_connect driver m) = None \<and>
              returned (pg_connect driver m) = None \<and>
              logged (pg_connect driver m) = [(ERROR, ''..error connecting to database'')] \<and>
              pg_connection (after (pg_connect driver m)) = None
         else raised (pg_connect driver m) = Some e \<and>
              logged (pg_connect driver m) = [] \<and>
              after (pg_connect driver m) = m"
  using assms by (simp add: pg_connect_def)

theorem pg_connect_failure_witness:
  "(\<lambda>c. Inl OperationalError) (creds (PostgresDBManager no_creds)) = Inl OperationalError \<and>
   raised (pg_connect (\<lambda>c. Inl OperationalError) (PostgresDBManager no_creds)) = None \<and>
   returned (pg_connect (\<lambda>c. Inl OperationalError) (PostgresDBManager no_creds)) = None \<and>
   logged (pg_connect (\<lambda>c. Inl OperationalError) (PostgresDBManager no_creds)) =
     [(ERROR, ''..error connecting to database'')] \<and>
   pg_connection (after (pg_connect (\<lambda>c. Inl OperationalError) (PostgresDBManager no_creds))) = None"
  using pg_connect_failure [of "\<lambda>c. Inl OperationalError" "PostgresDBManager no_creds" OperationalError]
  by simp

theorem pg_connect_failure_counterexample:
  "raised (pg_connect (\<lambda>c. Inl ProgrammingError) (PostgresDBManager no_creds)) = Some ProgrammingError \<and>
   logged (pg_connect (\<lambda>c. Inl ProgrammingError) (PostgresDBManager no_creds)) = []"
  by (simp add: pg_connect_def)

lemma pg_disconnect_after:
  "pg_connection (after (pg_disconnect m)) = None"
  by (simp add: pg_disconnect_def split: option.splits)

lemma pg_disconnect_disconnected:
  "pg_connection m = None \<Longrightarrow>
   pg_disconnect m = \<lparr>raised = None, returned = None,
      logged = [(WARNING, ''..no active database connection to close.'')], after = m\<rparr>"
  by (simp add: pg_disconnect_def)

lemma pg_disconnect_times_disconnected:
  "pg_connection m = None \<Longrightarrow> pg_disconnect_times n m = ([], m)"
  by (induction n) (simp_all add: pg_disconnect_disconnected)

lemma ago_disconnect_after: "gis (after (ago_disconnect a)) = None"
  by (simp add: ago_disconnect_def split: option.splits)

lemma ago_disconnect_raised: "raised (ago_disconnect a) = None"
  by (simp add: ago_disconnect_def split: option.splits)

lemma ago_disconnect_disconnected:
  "gis a = None \<Longrightarrow> after (ago_disconnect a) = a"
  by (simp add: ago_disconnect_def)

lemma ago_disconnect_times_disconnected:
  "gis a = None \<Longrightarrow> ago_disconnect_times n a = ([], a)"
  by (induction n) (simp_all add: ago_disconnect_disconnected ago_disconnect_raised)

text \<open>
  Claim C9, amended. After any call of either \<^verbatim>\<open>disconnect\<close> the handle is null; a
  call on a disconnected object raises nothing and changes nothing, so any number of
  calls leaves what the first one left; the publisher's \<^verbatim>\<open>disconnect\<close> never raises,
  and the database connector's raises only in its first call on a connected object,
  exactly when the driver's \<^verbatim>\<open>close()\<close> raises an exception that is not a
  \<^verbatim>\<open>DatabaseError\<close>. (The claim as stated, never raising in any connection state,
  fails on the connection \<open>broken_connection\<close>.)
\<close>

theorem disconnect_idempotent:
  "pg_connection (after (pg_disconnect m)) = None \<and>
   raised (pg_disconnect m) =
     (case pg_connection m of
        None \<Rightarrow> None
      | Some c \<Rightarrow>
          (case close_raises c of
             None \<Rightarrow> None
           | Some e \<Rightarrow> if is_DatabaseError e then None else Some e)) \<and>
   raised (pg_disconnect (after (pg_disconnect m))) = None \<and>
   after (pg_disconnect (after (pg_disconnect m))) = after (pg_disconnect m) \<and>
   pg_disconnect_times (Suc n) m =
     (case raised (pg_disconnect m) of None \<Rightarrow> [] | Some e \<Rightarrow> [e], after (pg_disconnect m)) \<and>
   gis (after (ago_disconnect a)) = None \<and>
   after (ago_disconnect (after (ago_disconnect a))) = after (ago_disconnect a) \<and>
   ago_disconnect_times (Suc n) a = ([], after (ago_disconnect a))"
proof -
  have 1: "raised (pg_disconnect m) =
     (case pg_connection m of
        None \<Rightarrow> None
      | Some c \<Rightarrow>
          (case close_raises c of
             None \<Rightarrow> None
           | Some e \<Rightarrow> if is_DatabaseError e then None else Some e))"
    by (simp add: pg_disconnect_def split: option.splits)
  have 2: "pg_disconnect_times (Suc n) m =
     (case raised (pg_disconnect m) of None \<Rightarrow> [] | Some e \<Rightarrow> [e], after (pg_disconnect m))"
    by (simp add: pg_disconnect_times_disconnected [OF pg_disconnect_after] split: option.splits)
  have 3: "ago_disconnect_times (Suc n) a = ([], after (ago_disconnect a))"
    by (simp add: ago_disconnect_times_disconnected [OF ago_disconnect_after] ago_disconnect_raised)
  show ?thesis
    using 1 2 3
    by (simp add: pg_disconnect_after pg_disconnect_disconnected ago_disconnect_after
        ago_disconnect_disconnected)
qed

theorem disconnect_idempotent_counterexample:
  "raised (pg_disconnect ((PostgresDBManager no_creds)\<lparr>pg_connection := Some broken_connection\<rparr>))
     = Some InterfaceError"
  by (simp add: pg_disconnect_def PostgresDBManager_def broken_connection_def)

section \<open>Properties of the asset reader\<close>

text \<open>
  Claim C10. When the schema lists no table other than \<^verbatim>\<open>qgis_projects\<close> (or no table
  at all), \<^verbatim>\<open>read_assets\<close> does not return an empty frame: it fails with
  \<^verbatim>\<open>UnboundLocalError\<close>.
\<close>

theorem read_assets_no_tables:
  assumes "\<forall>n \<in> set (map fst (db c)). n = ''qgis_projects''"
  shows "read_assets centroid to_wgs84 (Some c) = Inl UnboundLocalError"
proof -
  have "filter (\<lambda>x. x \<noteq> ''qgis_projects'') (map fst (db c)) = []"
    using assms by (simp add: filter_empty_conv)
  then show ?thesis by (simp add: read_assets_def)
qed

theorem read_assets_no_tables_witness:
  "list_all (\<lambda>n. n = ''qgis_projects'') (map fst (db only_projects)) \<and>
   read_assets (\<lambda>g. g) (\<lambda>g. g) (Some only_projects) = Inl UnboundLocalError"
  using read_assets_no_tables [of only_projects "\<lambda>g. g" "\<lambda>g. g"]
  by (simp add: only_projects_def)

section \<open>Properties of the GeoJSON conversion\<close>

lemma map_of_dict_set: "map_of (dict_set k v d) = (map_of d)(k \<mapsto> v)"
  by (induction d) (auto simp: fun_eq_iff)

lemma map_of_set_properties:
  "distinct (map fst items) \<Longrightarrow>
   map_of (set_properties isoformat items props) l =
     (case map_of items l of
        Some v \<Rightarrow> if l \<noteq> ''geometry'' then Some (property_value isoformat v) else map_of props l
      | None \<Rightarrow> map_of props l)"
proof (induction items arbitrary: props)
  case Nil
  then show ?case by simp
next
  case (Cons kv items)
  obtain k v where kv: "kv = (k, v)" by (cases kv)
  from Cons.prems have d: "distinct (map fst items)" and k: "map_of items k = None"
    by (auto simp: kv map_of_eq_None_iff)
  show ?case
    using Cons.IH [OF d] k by (auto simp: kv map_of_dict_set split: option.splits)
qed

lemma shape_geo_interface: "shape (geo_interface g) = Some g"
  by (cases g) (simp_all add: shape_def)

lemma prepared_value:
  "property_value isoformat
     ((\<lambda>c. if c = Str ''None'' then Str '''' else c) ((\<lambda>c. if isna c then Str '''' else c) c)) =
   normalized_value isoformat c"
  by (cases c) (simp_all add: normalized_value_def)

lemma prepared_geometry:
  "(\<lambda>c. if c = Str ''None'' then Str '''' else c) ((\<lambda>c. if isna c then Str '''' else c) (Geom g)) = Geom g"
  by simp

lemma prepare_rows:
  "rows (replace_None (fillna_empty gdf)) =
     map (map (\<lambda>c. (\<lambda>c. if c = Str ''None'' then Str '''' else c)
                     ((\<lambda>c. if isna c then Str '''' else c) c))) (rows gdf)"
  by (simp add: replace_None_def fillna_empty_def comp_def)

lemma prepare_labels: "labels (replace_None (fillna_empty gdf)) = labels gdf"
  by (simp add: replace_None_def fillna_empty_def labels_def)

lemma row_feature:
  assumes d: "distinct ls"
    and ig: "get_series ls ''geometry'' = Inr ig"
    and len: "length r = length ls"
    and geo: "geometry_of (r ! ig) = Some g"
  shows "\<exists>f. row_to_feature isoformat ls (map prepared r) = Inr f \<and>
     shape (geometry_member f) = Some g \<and>
     (\<forall>j < length r. j \<noteq> ig \<longrightarrow>
        parsed_property f (ls ! j) = Some (normalized_value isoformat (r ! j))) \<and>
     parsed_property f ''geometry'' = None \<and>
     fst ` set (properties f) = set ls - {''geometry''}"
proof -
  from get_series_nth [OF ig] have igb: "ig < length ls" "ls ! ig = ''geometry''" by simp_all
  from geo have rg: "r ! ig = Geom g" by (cases "r ! ig") auto
  have pg: "map prepared r ! ig = Geom g"
    using igb len by (simp add: rg prepared_def)
  define f where "f = \<lparr>feature_type = ''Feature'',
        properties = set_properties isoformat (zip ls (map prepared r)) [],
        geometry_member = geo_interface g\<rparr>"
  have run: "row_to_feature isoformat ls (map prepared r) = Inr f"
    by (simp add: row_to_feature_def ig pg f_def)
  have dz: "distinct (map fst (zip ls (map prepared r)))"
    using d len by simp
  have look: "parsed_property f l =
     (case map_of (zip ls (map prepared r)) l of
        Some v \<Rightarrow> if l \<noteq> ''geometry'' then Some (property_value isoformat v) else None
      | None \<Rightarrow> None)" for l
    by (simp add: parsed_property_def f_def map_of_set_properties [OF dz] split: option.splits)
  have pv: "property_value isoformat (prepared c) = normalized_value isoformat c" for c
    using prepared_value [of isoformat c] by (simp add: prepared_def)
  have vals: "parsed_property f (ls ! j) = Some (normalized_value isoformat (r ! j))"
    if "j < length r" "j \<noteq> ig" for j
  proof -
    have "map_of (zip ls (map prepared r)) (ls ! j) = Some (map prepared r ! j)"
      using that len d by (intro map_of_zip_nth) simp_all
    moreover have "ls ! j \<noteq> ''geometry''"
      using that igb d len by (metis nth_eq_iff_index_eq)
    ultimately show ?thesis using that by (simp add: look pv)
  qed
  have nog: "parsed_property f ''geometry'' = None"
    by (simp add: look split: option.splits)
  have "dom (map_of (properties f)) = set ls - {''geometry''}"
  proof (rule set_eqI)
    fix l
    have "map_of (zip ls (map prepared r)) l \<noteq> None \<longleftrightarrow> l \<in> set ls"
      using len map_fst_zip [of ls "map prepared r"]
      by (simp add: map_of_eq_None_iff flip: set_map)
    then show "l \<in> dom (map_of (properties f)) \<longleftrightarrow> l \<in> set ls - {''geometry''}"
      using look [of l] by (auto simp: parsed_property_def dom_def split: option.splits)
  qed
  then have keys: "fst ` set (properties f) = set ls - {''geometry''}"
    by (simp add: dom_map_of_conv_image_fst)
  show ?thesis
    using run vals nog keys by (auto simp: f_def shape_geo_interface)
qed

lemma traverse_all2:
  "\<forall>x \<in> set xs. \<exists>y. f x = Inr y \<and> P x y \<Longrightarrow>
   \<exists>ys. traverse f xs = Inr ys \<and> list_all2 P xs ys"
proof (induction xs)
  case Nil
  then show ?case by simp
next
  case (Cons x xs)
  then obtain y ys where "f x = Inr y" "P x y" "traverse f xs = Inr ys" "list_all2 P xs ys"
    by auto
  then show ?case by simp
qed

lemma traverse_map: "traverse f (map g xs) = traverse (f \<circ> g) xs"
  by (induction xs) (simp_all split: sum.splits)

lemma prepared_rows: "rows (replace_None (fillna_empty gdf)) = map (map prepared) (rows gdf)"
  by (simp add: replace_None_def fillna_empty_def comp_def prepared_def)

lemma feature_roundtrip_aux:
  assumes d: "distinct (labels gdf)"
    and ig: "get_series (labels gdf) ''geometry'' = Inr ig"
    and rs: "\<forall>r \<in> set (rows gdf). length r = length (cols gdf) \<and> geometry_of (r ! ig) \<noteq> None"
  shows "\<exists>fc. gdf_to_geojson isoformat (replace_None (fillna_empty gdf)) = Inr fc \<and>
     list_all2
       (\<lambda>r f. shape (geometry_member f) = geometry_of (r ! ig) \<and>
              (\<forall>j < length r. j \<noteq> ig \<longrightarrow>
                 parsed_property f (labels gdf ! j) = Some (normalized_value isoformat (r ! j))) \<and>
              fst ` set (properties f) = set (labels gdf) - {''geometry''})
       (rows gdf) (features fc)"
proof -
  let ?P = "\<lambda>r f. shape (geometry_member f) = geometry_of (r ! ig) \<and>
              (\<forall>j < length r. j \<noteq> ig \<longrightarrow>
                 parsed_property f (labels gdf ! j) = Some (normalized_value isoformat (r ! j))) \<and>
              fst ` set (properties f) = set (labels gdf) - {''geometry''}"
  have "\<forall>r \<in> set (rows gdf). \<exists>f.
      (row_to_feature isoformat (labels gdf) \<circ> map prepared) r = Inr f \<and> ?P r f"
  proof
    fix r assume "r \<in> set (rows gdf)"
    with rs obtain g where len: "length r = length (labels gdf)" and g: "geometry_of (r ! ig) = Some g"
      by (auto simp: labels_def)
    from row_feature [OF d ig len g, of isoformat] g
    show "\<exists>f. (row_to_feature isoformat (labels gdf) \<circ> map prepared) r = Inr f \<and> ?P r f"
      by auto
  qed
  then obtain fs where
    tr: "traverse (row_to_feature isoformat (labels gdf) \<circ> map prepared) (rows gdf) = Inr fs"
    and all: "list_all2 ?P (rows gdf) fs"
    using traverse_all2 [of "rows gdf" "row_to_feature isoformat (labels gdf) \<circ> map prepared" ?P]
    by blast
  have "traverse (row_to_feature isoformat (labels gdf)) (map (map prepared) (rows gdf)) = Inr fs"
    using tr by (simp add: traverse_map)
  then have "gdf_to_geojson isoformat (replace_None (fillna_empty gdf)) =
      Inr \<lparr>collection_type = ''FeatureCollection'', features = fs\<rparr>"
    by (simp add: gdf_to_geojson_def prepare_labels prepared_rows)
  with all show ?thesis by simp
qed

text \<open>
  Claim C5, amended. For every frame whose column labels are pairwise distinct and whose
  rows all bear a geometry: the publisher's preprocessing followed by the conversion
  yields one Feature per row, and reading a Feature back gives, for every column other
  than geometry, the row's value after the normalization (missing and the string None to
  the empty string, a timestamp to its ISO-8601 text), no other property, and the
  geometry of the row with its coordinates. (With two columns of one label the claim
  fails, as the frame \<open>park_twice_out\<close> shows.)
\<close>

theorem feature_roundtrip:
  assumes d: "distinct (labels gdf)"
    and ig: "get_series (labels gdf) ''geometry'' = Inr ig"
    and rs: "\<forall>r \<in> set (rows gdf). length r = length (cols gdf) \<and> geometry_of (r ! ig) \<noteq> None"
  shows "\<exists>fc. gdf_to_geojson isoformat (replace_None (fillna_empty gdf)) = Inr fc \<and>
     list_all2
       (\<lambda>r f. shape (geometry_member f) = geometry_of (r ! ig) \<and>
              (\<forall>j < length r. j \<noteq> ig \<longrightarrow>
                 parsed_property f (labels gdf ! j) = Some (normalized_value isoformat (r ! j))) \<and>
              fst ` set (properties f) = set (labels gdf) - {''geometry''})
       (rows gdf) (features fc)"
  using d ig rs by (rule feature_roundtrip_aux)

lemma sample_out_fit:
  "distinct (labels sample_out)"
  "get_series (labels sample_out) ''geometry'' = Inr 13"
  "list_all (\<lambda>r. length r = length (cols sample_out) \<and> geometry_of (r ! 13) \<noteq> None) (rows sample_out)"
  by (simp_all add: sample_out_def sample_out_cols_def sample_out_row_def labels_def
      get_series_def positions_def)

theorem feature_roundtrip_witness:
  "distinct (labels sample_out) \<and>
   get_series (labels sample_out) ''geometry'' = Inr 13 \<and>
   list_all (\<lambda>r. length r = length (cols sample_out) \<and> geometry_of (r ! 13) \<noteq> None) (rows sample_out) \<and>
   (\<exists>fc. gdf_to_geojson (\<lambda>t. '''') (replace_None (fillna_empty sample_out)) = Inr fc \<and>
     list_all2
       (\<lambda>r f. shape (geometry_member f) = geometry_of (r ! 13) \<and>
              (\<forall>j < length r. j \<noteq> 13 \<longrightarrow>
                 parsed_property f (labels sample_out ! j) = Some (normalized_value (\<lambda>t. '''') (r ! j))) \<and>
              fst ` set (properties f) = set (labels sample_out) - {''geometry''})
       (rows sample_out) (features fc))"
proof -
  have rs: "\<forall>r \<in> set (rows sample_out). length r = length (cols sample_out) \<and> geometry_of (r ! 13) \<noteq> None"
    using sample_out_fit(3) by (simp add: list_all_iff)
  show ?thesis
    using feature_roundtrip [OF sample_out_fit(1,2) rs, of "\<lambda>t. ''''"] sample_out_fit by blast
qed

theorem feature_roundtrip_counterexample:
  "gdf_to_geojson (\<lambda>t. '''') (replace_None (fillna_empty park_twice_out)) =
     Inr \<lparr>collection_type = ''FeatureCollection'', features = [park_twice_feature]\<rparr> \<and>
   labels park_twice_out ! 2 = ''Park'' \<and>
   hd (rows park_twice_out) ! 2 = Str ''Garibaldi'' \<and>
   parsed_property park_twice_feature ''Park'' = Some (Str ''Strathcona'')"
  by (simp add: gdf_to_geojson_def row_to_feature_def get_series_def positions_def labels_def
      replace_None_def fillna_empty_def park_twice_out_def park_twice_feature_def
      parsed_property_def)

section \<open>Properties of the asset reader, continued\<close>














lemma traverse_Nil_iff: "traverse f [] = Inr ys \<longleftrightarrow> ys = []"
  by auto








section \<open>Properties of the publisher\<close>

lemma delete_existing_ok:
  "delete_existing rejects items (lg, s) = (True, lg', s') \<Longrightarrow>
   content s' =
     filter (\<lambda>j. \<not> (\<exists>i \<in> set items. item_type i = ''GeoJson'' \<and> item_id i = item_id j)) (content s) \<and>
   next_id s' = next_id s"
proof (induction items arbitrary: lg s)
  case Nil
  then show ?case by simp
next
  case (Cons i items)
  show ?case
  proof (cases "item_type i = ''GeoJson''")
    case True
    with Cons.prems have nr: "\<not> rejects (Delete (item_id i))"
      and rec: "delete_existing rejects items
         (lg @ [(INFO, ''..existing GeoJSON item '' @ item_title i @ '' deleted.'')], item_delete i s)
         = (True, lg', s')"
      by (auto split: if_splits)
    from Cons.IH [OF rec] True show ?thesis
      by (auto simp: item_delete_def intro!: filter_cong)
  next
    case False
    with Cons.prems have "delete_existing rejects items (lg, s) = (True, lg', s')" by simp
    from Cons.IH [OF this] False show ?thesis
      by (auto intro!: filter_cong)
  qed
qed

lemma publish_steps_ok:
  assumes run: "publish_steps qmatch rejects g title geojson_name folder s = (True, lg, s')"
    and me: "me g = Some username"
    and q: "qmatch title title"
    and ok: "store_ok s"
  shows "s' = item_publish
           \<lparr>item_id = next_id s, item_title = title, item_type = ''GeoJson'',
             item_owner = username, item_file = geojson_name @ ''.geojson'', item_folder = folder\<rparr>
           \<lparr>content = filter (\<lambda>i. \<not> replaced title username i) (content s) @
              [\<lparr>item_id = next_id s, item_title = title, item_type = ''GeoJson'',
                item_owner = username, item_file = geojson_name @ ''.geojson'', item_folder = folder\<rparr>],
            next_id = Suc (next_id s)\<rparr>"
proof -
  let ?existing = "filter (\<lambda>i. item_title i = title) (content_search qmatch s title username ''GeoJson'')"
  from run me obtain lg1 s1 where
    del: "delete_existing rejects ?existing ([], s) = (True, lg1, s1)" and
    rest: "s' = item_publish (fst (content_add username title ''GeoJson'' (geojson_name @ ''.geojson'') folder s1))
                  (snd (content_add username title ''GeoJson'' (geojson_name @ ''.geojson'') folder s1))"
    by (auto simp: publish_steps_def Let_def split: if_splits prod.splits bool.splits)
  have ex: "set ?existing = {i \<in> set (content s). replaced title username i}"
    using q by (auto simp: content_search_def replaced_def)
  from ok have inj: "inj_on item_id (set (content s))"
    by (simp add: store_ok_def distinct_map)
  have "content s1 = filter (\<lambda>j. \<not> (\<exists>i \<in> set ?existing. item_type i = ''GeoJson'' \<and> item_id i = item_id j)) (content s)"
    and n1: "next_id s1 = next_id s"
    using delete_existing_ok [OF del] by simp_all
  moreover have "filter (\<lambda>j. \<not> (\<exists>i \<in> set ?existing. item_type i = ''GeoJson'' \<and> item_id i = item_id j)) (content s)
      = filter (\<lambda>i. \<not> replaced title username i) (content s)"
  proof (rule filter_cong [OF refl])
    fix j assume j: "j \<in> set (content s)"
    have "(\<exists>i \<in> set ?existing. item_type i = ''GeoJson'' \<and> item_id i = item_id j) \<longleftrightarrow> replaced title username j"
    proof
      assume "\<exists>i \<in> set ?existing. item_type i = ''GeoJson'' \<and> item_id i = item_id j"
      then obtain i where i: "i \<in> set (content s)" "replaced title username i" "item_id i = item_id j"
        unfolding ex by blast
      with inj j have "i = j" by (auto dest: inj_onD)
      with i show "replaced title username j" by simp
    next
      assume "replaced title username j"
      with j show "\<exists>i \<in> set ?existing. item_type i = ''GeoJson'' \<and> item_id i = item_id j"
        unfolding ex by (auto simp: replaced_def)
    qed
    then show "(\<not> (\<exists>i \<in> set ?existing. item_type i = ''GeoJson'' \<and> item_id i = item_id j)) =
        (\<not> replaced title username j)" by simp
  qed
  ultimately have c1: "content s1 = filter (\<lambda>i. \<not> replaced title username i) (content s)"
    by simp
  have whole: "s1\<lparr>content := A, next_id := B\<rparr> = \<lparr>content = A, next_id = B\<rparr>" for A B
    by (cases s1) simp
  show ?thesis
    unfolding rest by (simp add: content_add_def Let_def c1 n1 whole)
qed

lemma publish_feature_layer_ok:
  assumes "raised (publish_feature_layer isoformat qmatch rejects m gdf title geojson_name item_desc folder s) = None"
    and "gis m = Some g"
  obtains lg where "publish_steps qmatch rejects g title geojson_name folder s =
    (True, lg, after (publish_feature_layer isoformat qmatch rejects m gdf title geojson_name item_desc folder s))"
  using assms
  by (auto simp: publish_feature_layer_def split: sum.splits prod.splits bool.splits)

lemma published_store:
  fixes s :: store
  defines "new \<equiv> \<lambda>(title :: string) (username :: string) (file :: string) (folder :: string).
      \<lparr>item_id = next_id s, item_title = title, item_type = ''GeoJson'',
       item_owner = username, item_file = file, item_folder = folder\<rparr>"
  assumes ok: "store_ok s"
    and s': "s' = item_publish (new title username file folder)
           \<lparr>content = filter (\<lambda>i. \<not> replaced title username i) (content s) @ [new title username file folder],
            next_id = Suc (next_id s)\<rparr>"
  shows "filter (replaced title username) (content s') = [new title username file folder]"
    and "\<exists>extra. filter (\<lambda>i. \<not> replaced title username i) (content s') =
            filter (\<lambda>i. \<not> replaced title username i) (content s) @ extra \<and>
          (list_ex (\<lambda>j. item_type j = ''Feature Service'' \<and> item_title j = title \<and>
                       item_owner j = username) (content s) \<longrightarrow> extra = [])"
    and "store_ok s'"
    and "list_ex (\<lambda>j. item_type j = ''Feature Service'' \<and> item_title j = title \<and>
                       item_owner j = username) (content s')"
    and "{i \<in> set (content s). i \<notin> set (content s')} = {i \<in> set (content s). replaced title username i}"
proof -
  let ?n = "new title username file folder"
  let ?keep = "filter (\<lambda>i. \<not> replaced title username i) (content s)"
  let ?fs = "\<lambda>j. item_type j = ''Feature Service'' \<and> item_title j = title \<and> item_owner j = username"
  have rn: "replaced title username ?n" by (simp add: new_def replaced_def)
  have nfs: "\<not> ?fs ?n" by (simp add: new_def)
  have fsk: "list_ex ?fs ?keep \<longleftrightarrow> list_ex ?fs (content s)"
    by (auto simp: list_ex_iff replaced_def)
  define fsi where "fsi = \<lparr>item_id = Suc (next_id s), item_title = title,
                   item_type = ''Feature Service'', item_owner = username,
                   item_file = '''', item_folder = folder\<rparr>"
  have nrf: "\<not> replaced title username fsi" by (simp add: fsi_def replaced_def)
  have c: "content s' = ?keep @ [?n] @ (if list_ex ?fs (content s) then [] else [fsi])"
    and n: "next_id s' = (if list_ex ?fs (content s) then Suc (next_id s) else Suc (Suc (next_id s)))"
    unfolding s' item_publish_def by (simp_all add: new_def fsi_def fsk)
  show "filter (replaced title username) (content s') = [?n]"
    using rn nrf by (simp add: c)
  show "\<exists>extra. filter (\<lambda>i. \<not> replaced title username i) (content s') = ?keep @ extra \<and>
          (list_ex ?fs (content s) \<longrightarrow> extra = [])"
    using rn nrf by (simp add: c)
  from ok have d: "distinct (map item_id (content s))" and b: "\<forall>i \<in> set (content s). item_id i < next_id s"
    by (simp_all add: store_ok_def list_all_iff)
  have idn: "item_id ?n = next_id s" by (simp add: new_def)
  have idf: "item_id fsi = Suc (next_id s)" by (simp add: fsi_def)
  show "store_ok s'"
    using d b by (auto simp: store_ok_def c n list_all_iff distinct_map_filter idn idf)
  show "list_ex ?fs (content s')"
  proof (cases "list_ex ?fs (content s)")
    case True
    then have "list_ex ?fs ?keep" by (simp only: fsk)
    then show ?thesis by (simp add: c)
  next
    case False
    then show ?thesis by (simp add: c fsi_def)
  qed
  show "{i \<in> set (content s). i \<notin> set (content s')} = {i \<in> set (content s). replaced title username i}"
    using b rn nrf by (auto simp: c idn idf)
qed

text \<open>
  Claim C4. On a store that gives every item its own identifier, with a search that
  finds the items of exactly the given title: a publish that succeeds removes from the
  store exactly the existing GeoJson items of that title owned by the current user, and
  leaves one such item, the new one; a second publish that succeeds does the same, so
  that again exactly one such item is live, the number of items is the same as after the
  first publish, and the items of other titles, types or owners are the same as before.
\<close>

theorem publish_twice:
  assumes ok: "store_ok s"
    and g: "gis m = Some g"
    and me: "me g = Some username"
    and q: "qmatch title title"
    and s1: "s1 = after (publish_feature_layer isoformat qmatch rejects1 m gdf title geojson_name item_desc folder s)"
    and s2: "s2 = after (publish_feature_layer isoformat qmatch rejects2 m gdf title geojson_name item_desc folder s1)"
    and p1: "raised (publish_feature_layer isoformat qmatch rejects1 m gdf title geojson_name item_desc folder s) = None"
    and p2: "raised (publish_feature_layer isoformat qmatch rejects2 m gdf title geojson_name item_desc folder s1) = None"
  shows "{i \<in> set (content s). i \<notin> set (content s1)} = {i \<in> set (content s). replaced title username i} \<and>
    {i \<in> set (content s1). i \<notin> set (content s2)} = {i \<in> set (content s1). replaced title username i} \<and>
    length (filter (replaced title username) (content s1)) = 1 \<and>
    length (filter (replaced title username) (content s2)) = 1 \<and>
    length (content s2) = length (content s1) \<and>
    filter (\<lambda>i. \<not> replaced title username i) (content s2) =
      filter (\<lambda>i. \<not> replaced title username i) (content s1)"
proof -
  let ?fs = "\<lambda>j. item_type j = ''Feature Service'' \<and> item_title j = title \<and> item_owner j = username"
  from p1 g obtain lg1 where
    "publish_steps qmatch rejects1 g title geojson_name folder s = (True, lg1, s1)"
    unfolding s1 by (rule publish_feature_layer_ok)
  note f1 = published_store [OF ok publish_steps_ok [OF this me q ok]]
  from p2 g obtain lg2 where
    "publish_steps qmatch rejects2 g title geojson_name folder s1 = (True, lg2, s2)"
    unfolding s2 by (rule publish_feature_layer_ok)
  note f2 = published_store [OF f1(3) publish_steps_ok [OF this me q f1(3)]]
  from f2(2) f1(4) have keep: "filter (\<lambda>i. \<not> replaced title username i) (content s2) =
      filter (\<lambda>i. \<not> replaced title username i) (content s1)"
    by auto
  have l1: "length (filter (replaced title username) (content s1)) = 1" by (simp add: f1(1))
  have l2: "length (filter (replaced title username) (content s2)) = 1" by (simp add: f2(1))
  have "length (content s2) =
      length (filter (replaced title username) (content s2)) +
      length (filter (\<lambda>i. \<not> replaced title username i) (content s2))"
    by (simp add: sum_length_filter_compl)
  also have "\<dots> = length (filter (replaced title username) (content s1)) +
      length (filter (\<lambda>i. \<not> replaced title username i) (content s1))"
    by (simp add: l1 l2 keep)
  also have "\<dots> = length (content s1)"
    by (simp add: sum_length_filter_compl)
  finally have len: "length (content s2) = length (content s1)" .
  show ?thesis
    using f1(5) f2(5) l1 l2 len keep by simp
qed

lemma sample_store_ok: "store_ok sample_store"
  by (simp add: store_ok_def sample_store_def sample_item_def)

lemma sample_out_geojson:
  "\<exists>doc. gdf_to_geojson (\<lambda>t. '''') (replace_None (fillna_empty sample_out)) = Inr doc"
proof -
  have rs: "\<forall>r \<in> set (rows sample_out). length r = length (cols sample_out) \<and> geometry_of (r ! 13) \<noteq> None"
    using sample_out_fit(3) by (simp add: list_all_iff)
  from feature_roundtrip_aux [OF sample_out_fit(1,2) rs] show ?thesis by blast
qed

lemmas store_defs = Let_def publish_steps_def content_search_def item_delete_def content_add_def
  item_publish_def sample_item_def asset_title_def trail_title_def parc_folder_def

lemma sample_publish_1:
  "raised (sample_publish sample_store) = None"
  "after (sample_publish sample_store) = sample_store_1"
  using sample_out_geojson
  by (auto simp: sample_publish_def publish_feature_layer_def sample_manager_def AGOManager_def
      store_defs sample_store_def sample_store_1_def)

lemma sample_publish_2:
  "raised (sample_publish sample_store_1) = None"
  "after (sample_publish sample_store_1) = sample_store_2"
  using sample_out_geojson
  by (auto simp: sample_publish_def publish_feature_layer_def sample_manager_def AGOManager_def
      store_defs sample_store_1_def sample_store_2_def)

theorem publish_twice_witness:
  "store_ok sample_store \<and>
   gis sample_manager = Some \<lparr>me = Some ''dss''\<rparr> \<and>
   raised (sample_publish sample_store) = None \<and>
   raised (sample_publish (after (sample_publish sample_store))) = None \<and>
   {i \<in> set (content sample_store). i \<notin> set (content (after (sample_publish sample_store)))} =
     {i \<in> set (content sample_store). replaced asset_title ''dss'' i} \<and>
   length (filter (replaced asset_title ''dss'') (content (after (sample_publish sample_store)))) = 1 \<and>
   length (filter (replaced asset_title ''dss'')
     (content (after (sample_publish (after (sample_publish sample_store)))))) = 1 \<and>
   length (content (after (sample_publish (after (sample_publish sample_store))))) =
     length (content (after (sample_publish sample_store)))"
proof -
  have g: "gis sample_manager = Some \<lparr>me = Some ''dss''\<rparr>"
    by (simp add: sample_manager_def AGOManager_def)
  have me: "me \<lparr>me = Some ''dss''\<rparr> = Some ''dss''" by simp
  have p1: "raised (sample_publish sample_store) = None" by (rule sample_publish_1)
  have p2: "raised (sample_publish (after (sample_publish sample_store))) = None"
    by (simp add: sample_publish_1 sample_publish_2)
  from publish_twice [OF sample_store_ok g me _ refl refl, of "\<lambda>q t. True" asset_title
      "\<lambda>t. ''''" "\<lambda>r. False" sample_out "''bcparks_assets_v2''" "''Point dataset - BCParks assets''"
      parc_folder "\<lambda>r. False", folded sample_publish_def, OF _ p1 p2]
  show ?thesis using sample_store_ok g p1 p2 by simp
qed

section \<open>Properties of the publish phase\<close>

text \<open>
  Claim C6, amended. Once the login has succeeded: when the asset frame has no rows, its
  publish is not made (the trail step starts from the untouched store) and the error is
  logged; the trail step is still taken, publishing the trails when they have rows, and
  the phase ends without an exception exactly when that step does. When the trail frame
  has no rows, the asset step is taken all the same and the trails are not published;
  the trails error is logged, and the phase succeeds, when the asset step raised nothing.
  (The two steps share one \<^verbatim>\<open>try\<close> block: an exception of the asset publish leaves
  it before the trails are looked at, so that the claim as stated, an error logged for
  whichever dataset is empty, fails on the run \<open>rejected_phase\<close>.)
\<close>

theorem empty_dataset_skipped:
  fixes isoformat qmatch rejects_ast rejects_trl today gdf_ast gdf_trl s
  assumes login: "portal h u p = Inr g" "me g = Some username"
  defines "ago \<equiv> \<lparr>ago_host = h, ago_username = u, ago_password = p, gis = Some g\<rparr>"
  defines "R \<equiv> publish_phase isoformat portal qmatch rejects_ast rejects_trl today h u p gdf_ast gdf_trl s"
  defines "T \<equiv> (if rows gdf_trl = []
                 then \<lparr>raised = None, returned = None, logged = [trails_empty_message], after = s\<rparr>
                 else publish_feature_layer isoformat qmatch rejects_trl ago gdf_trl trail_title
                        ''bcparks_trails_v2''
                        (''Line dataset - BCParks trails (updated on '' @ today @ '')'') parc_folder s)"
  defines "A \<equiv> (if rows gdf_ast = []
                 then \<lparr>raised = None, returned = None, logged = [assets_empty_message], after = s\<rparr>
                 else publish_feature_layer isoformat qmatch rejects_ast ago gdf_ast asset_title
                        ''bcparks_assets_v2''
                        (''Point dataset - BCParks assets (updated on '' @ today @ '')'') parc_folder s)"
  shows "(rows gdf_ast = [] \<longrightarrow>
           assets_empty_message \<in> set (logged R) \<and>
           snd (after R) = after T \<and>
           set (logged T) \<subseteq> set (logged R) \<and>
           (raised R = None \<longleftrightarrow> raised T = None)) \<and>
         (rows gdf_trl = [] \<longrightarrow>
           snd (after R) = after A \<and>
           set (logged A) \<subseteq> set (logged R) \<and>
           (raised R = None \<longleftrightarrow> raised A = None) \<and>
           (raised A = None \<longrightarrow> trails_empty_message \<in> set (logged R))) \<and>
         gis (fst (after R)) = None"
proof -
  have c: "ago_connect portal (AGOManager h u p) =
      \<lparr>raised = None, returned = None,
       logged = [(INFO, ''..successfully connected to AGOL as '' @ username)], after = ago\<rparr>"
    using login by (simp add: ago_connect_def AGOManager_def ago_def)
  have 1: "rows gdf_ast = [] \<longrightarrow>
           assets_empty_message \<in> set (logged R) \<and>
           snd (after R) = after T \<and>
           set (logged T) \<subseteq> set (logged R) \<and>
           (raised R = None \<longleftrightarrow> raised T = None)"
    unfolding R_def T_def publish_phase_def c
    by (auto simp: publish_if_rows_def finally_disconnect_def Let_def split: option.splits)
  have 2: "rows gdf_trl = [] \<longrightarrow>
           snd (after R) = after A \<and>
           set (logged A) \<subseteq> set (logged R) \<and>
           (raised R = None \<longleftrightarrow> raised A = None) \<and>
           (raised A = None \<longrightarrow> trails_empty_message \<in> set (logged R))"
    unfolding R_def A_def publish_phase_def c
    by (auto simp: publish_if_rows_def finally_disconnect_def Let_def split: option.splits)
  have 3: "gis (fst (after R)) = None"
    unfolding R_def publish_phase_def c
    by (auto simp: finally_disconnect_def ago_disconnect_def ago_def Let_def split: option.splits)
  from 1 2 3 show ?thesis by blast
qed

lemma sample_trail_publish_ok: "raised sample_trail_publish = None"
  by (simp add: sample_trail_publish_def publish_feature_layer_def sample_manager_def
      AGOManager_def gdf_to_geojson_def row_to_feature_def get_series_def positions_def
      labels_def replace_None_def fillna_empty_def sample_trails_def Let_def publish_steps_def
      content_search_def item_delete_def content_add_def item_publish_def sample_item_def
      sample_store_def asset_title_def trail_title_def parc_folder_def)

theorem empty_dataset_skipped_witness:
  "sample_portal None (Some ''dss'') None = Inr \<lparr>me = Some ''dss''\<rparr> \<and>
   rows no_assets = [] \<and>
   rows sample_trails \<noteq> [] \<and>
   assets_empty_message \<in> set (logged sample_phase) \<and>
   snd (after sample_phase) = after sample_trail_publish \<and>
   raised sample_trail_publish = None \<and>
   raised sample_phase = None \<and>
   gis (fst (after sample_phase)) = None"
proof -
  have login: "sample_portal None (Some ''dss'') None = Inr \<lparr>me = Some ''dss''\<rparr>"
    "me \<lparr>me = Some ''dss''\<rparr> = Some ''dss''"
    by (simp_all add: sample_portal_def)
  have e: "rows no_assets = []" and ne: "rows sample_trails \<noteq> []"
    by (simp_all add: no_assets_def sample_trails_def)
  have m: "\<lparr>ago_host = None, ago_username = Some ''dss'', ago_password = None,
            gis = Some \<lparr>me = Some ''dss''\<rparr>\<rparr> = sample_manager"
    by (simp add: sample_manager_def AGOManager_def)
  note empty_dataset_skipped [where portal = sample_portal and h = None and u = "Some ''dss''"
      and p = None and g = "\<lparr>me = Some ''dss''\<rparr>" and username = "''dss''"
      and isoformat = "\<lambda>t. ''''" and qmatch = "\<lambda>q t. True" and rejects_ast = "\<lambda>r. False"
      and rejects_trl = "\<lambda>r. False" and today = "''November 04, 2026''"
      and gdf_ast = no_assets and gdf_trl = sample_trails and s = sample_store, OF login]
  moreover have "publish_feature_layer (\<lambda>t. '''') (\<lambda>q t. True) (\<lambda>r. False)
         sample_manager sample_trails trail_title ''bcparks_trails_v2''
         ''Line dataset - BCParks trails (updated on November 04, 2026)''
         parc_folder sample_store = sample_trail_publish"
    by (simp add: sample_trail_publish_def)
  ultimately show ?thesis
    using login(1) e ne sample_trail_publish_ok
    by (simp add: m flip: sample_phase_def)
qed

theorem empty_dataset_skipped_counterexample:
  "sample_portal None (Some ''dss'') None = Inr \<lparr>me = Some ''dss''\<rparr> \<and>
   rows no_trails = [] \<and>
   rows sample_out \<noteq> [] \<and>
   raised rejected_phase = Some GenericException \<and>
   trails_empty_message \<notin> set (logged rejected_phase) \<and>
   snd (after rejected_phase) = sample_store\<lparr>content := [sample_item 1 trail_title ''GeoJson'' ''dss'',
       sample_item 2 asset_title ''Feature Service'' ''dss'',
       sample_item 3 asset_title ''GeoJson'' ''someone'']\<rparr>"
proof -
  from sample_out_geojson obtain doc where
    doc: "gdf_to_geojson (\<lambda>t. '''') (replace_None (fillna_empty sample_out)) = Inr doc"
    by blast
  have login: "sample_portal None (Some ''dss'') None = Inr \<lparr>me = Some ''dss''\<rparr>"
    by (simp add: sample_portal_def)
  have r: "rows no_trails = []" "rows sample_out \<noteq> []"
    by (simp_all add: no_trails_def sample_out_def)
  have run: "raised rejected_phase = Some GenericException \<and>
      trails_empty_message \<notin> set (logged rejected_phase) \<and>
      snd (after rejected_phase) = sample_store\<lparr>content := [sample_item 1 trail_title ''GeoJson'' ''dss'',
       sample_item 2 asset_title ''Feature Service'' ''dss'',
       sample_item 3 asset_title ''GeoJson'' ''someone'']\<rparr>"
    using r(2)
    by (simp add: rejected_phase_def publish_phase_def ago_connect_def AGOManager_def
        sample_portal_def publish_if_rows_def publish_feature_layer_def doc
        finally_disconnect_def ago_disconnect_def store_defs sample_store_def
        trails_empty_message_def)
  from login r run show ?thesis by simp
qed

end
